theory Spec2Isabelle
  imports Main "HOL-Library.Word" "HOL-Library.AList"
begin

section \<open>Errors\<close>

text \<open>
  Go errors are values.  The sentinel errors of package \<open>define\<close> and the errno values
  the code tests for are constructors; \<open>errors.Errorf\<close> builds a fresh error from a format
  and its arguments; \<open>errors.Wrapf\<close> wraps a cause; every other error a collaborator may
  return is \<open>Foreign\<close>.  A nil error is \<open>None\<close> of \<open>error option\<close>.
\<close>

datatype error =
    ErrInvalidArg
  | ErrRuntimeStopped
  | ErrNoFreeLocks
  | ENOENT
  | EEXIST
  | EACCES
  | ERANGE
  | Errorf string "string list"
  | Wrapf error string "string list"
  | Foreign nat

text \<open>\<open>errors.Cause\<close>: strip the wrappers.\<close>

fun Cause :: "error \<Rightarrow> error" where
  "Cause (Wrapf e msg args) = Cause e"
| "Cause ErrInvalidArg = ErrInvalidArg"
| "Cause ErrRuntimeStopped = ErrRuntimeStopped"
| "Cause ErrNoFreeLocks = ErrNoFreeLocks"
| "Cause ENOENT = ENOENT"
| "Cause EEXIST = EEXIST"
| "Cause EACCES = EACCES"
| "Cause ERANGE = ERANGE"
| "Cause (Errorf msg args) = Errorf msg args"
| "Cause (Foreign k) = Foreign k"

definition os_IsNotExist :: "error \<Rightarrow> bool" where
  "os_IsNotExist e = (e = ENOENT)"

definition os_IsExist :: "error \<Rightarrow> bool" where
  "os_IsExist e = (e = EEXIST)"

section \<open>Strings\<close>

definition HasPrefix :: "string \<Rightarrow> string \<Rightarrow> bool" where
  "HasPrefix s p = (length p \<le> length s \<and> take (length p) s = p)"

text \<open>
  \<open>strings.SplitN\<close> and \<open>strings.Split\<close> for a one-byte separator, which is how every call
  in \<open>namespaces.go\<close> uses them.  \<open>genSplit\<close> fills at most \<open>n - 1\<close> pieces cut at the
  separator and puts the rest of the string in the last one; the loop stops early when the
  separator no longer occurs.
\<close>

fun genSplit_loop :: "nat \<Rightarrow> string \<Rightarrow> char \<Rightarrow> string list" where
  "genSplit_loop 0 s sep = [s]"
| "genSplit_loop (Suc k) s sep =
     (if sep \<in> set s
      then takeWhile (\<lambda>c. c \<noteq> sep) s # genSplit_loop k (tl (dropWhile (\<lambda>c. c \<noteq> sep) s)) sep
      else [s])"

definition Count :: "string \<Rightarrow> char \<Rightarrow> nat" where
  "Count s sep = length (filter (\<lambda>c. c = sep) s)"

definition SplitN :: "string \<Rightarrow> char \<Rightarrow> int \<Rightarrow> string list" where
  "SplitN s sep n =
     (if n = 0 then []
      else if n < 0 then genSplit_loop (Count s sep) s sep
      else genSplit_loop (nat n - 1) s sep)"

definition Split :: "string \<Rightarrow> char \<Rightarrow> string list" where
  "Split s sep = SplitN s sep (- 1)"

section \<open>Namespaces of the spec generator (pkg/specgen/namespaces.go)\<close>

type_synonym NamespaceMode = string

definition Default :: NamespaceMode where "Default = ''default''"
definition Host :: NamespaceMode where "Host = ''host''"
definition Path :: NamespaceMode where "Path = ''path''"
definition FromContainer :: NamespaceMode where "FromContainer = ''container''"
definition FromPod :: NamespaceMode where "FromPod = ''pod''"
definition Private :: NamespaceMode where "Private = ''private''"
definition NoNetwork :: NamespaceMode where "NoNetwork = ''none''"
definition Bridge :: NamespaceMode where "Bridge = ''bridge''"
definition Slirp :: NamespaceMode where "Slirp = ''slirp4netns''"

record Namespace =
  NSMode :: NamespaceMode
  Value :: string

text \<open>The check of \<open>Value\<close> shared by \<open>validate\<close> and \<open>validateNetNS\<close>.\<close>

definition check_value :: "Namespace \<Rightarrow> error option" where
  "check_value n =
     (if NSMode n = Path \<or> NSMode n = FromContainer
      then (if length (Value n) < 1
            then Some (Errorf ''namespace mode %s requires a value'' [NSMode n])
            else None)
      else (if length (Value n) > 0
            then Some (Errorf ''namespace value %s cannot be provided with namespace mode %s''
                         [Value n, NSMode n])
            else None))"

text \<open>\<open>(n *Namespace) validate()\<close>; the receiver may be nil, which is \<open>None\<close>.\<close>

definition validate :: "Namespace option \<Rightarrow> error option" where
  "validate p =
     (case p of
        None \<Rightarrow> None
      | Some n \<Rightarrow>
          (if NSMode n \<in> set ['''', Default, Host, Path, FromContainer, FromPod, Private]
           then check_value n
           else if NSMode n \<in> set [NoNetwork, Bridge, Slirp]
           then Some (Errorf ''cannot use network modes with non-network namespace'' [])
           else Some (Errorf ''invalid namespace type %s specified'' [NSMode n])))"

definition validateNetNS :: "Namespace option \<Rightarrow> error option" where
  "validateNetNS p =
     (case p of
        None \<Rightarrow> None
      | Some n \<Rightarrow>
          (if NSMode n \<in> set ['''', Default, Host, Path, FromContainer, FromPod, Private,
                                NoNetwork, Bridge, Slirp]
           then check_value n
           else Some (Errorf ''invalid network %q'' [NSMode n])))"

text \<open>
  \<open>ParseNetworkNamespace\<close> returns the namespace, the CNI networks (a nil slice is the
  empty list) and the error.  The zero \<open>Namespace\<close> has both fields empty.
\<close>

definition zeroNamespace :: Namespace where
  "zeroNamespace = \<lparr>NSMode = '''', Value = ''''\<rparr>"

definition ParseNetworkNamespace :: "string \<Rightarrow> Namespace \<times> string list \<times> error option" where
  "ParseNetworkNamespace ns =
     (let toReturn = zeroNamespace in
      if ns = ''bridge'' then (toReturn\<lparr>NSMode := Bridge\<rparr>, [], None)
      else if ns = ''none'' then (toReturn\<lparr>NSMode := NoNetwork\<rparr>, [], None)
      else if ns = ''host'' then (toReturn\<lparr>NSMode := Host\<rparr>, [], None)
      else if ns = ''private'' then (toReturn\<lparr>NSMode := Private\<rparr>, [], None)
      else if HasPrefix ns ''ns:'' then
        (let split = SplitN ns CHR '':'' 2 in
         if length split \<noteq> 2
         then (toReturn, [],
               Some (Errorf ''must provide a path to a namespace when specifying ns:'' []))
         else (toReturn\<lparr>NSMode := Path, Value := split ! 1\<rparr>, [], None))
      else if HasPrefix ns ''container:'' then
        (let split = SplitN ns CHR '':'' 2 in
         if length split \<noteq> 2
         then (toReturn, [],
               Some (Errorf ''must provide name or ID or a container when specifying container:'' []))
         else (toReturn\<lparr>NSMode := FromContainer, Value := split ! 1\<rparr>, [], None))
      else (toReturn\<lparr>NSMode := Bridge\<rparr>, Split ns CHR '','', None))"

section \<open>Go's path/filepath on a Unix host\<close>

text \<open>
  \<open>filepath.Clean\<close> works on the components of the path: empty components and \<open>.\<close>
  disappear, \<open>..\<close> removes the component before it, is dropped at the root, and is kept
  at the start of a relative path.  The empty result is \<open>.\<close>.
\<close>

fun clean_comps :: "bool \<Rightarrow> string list \<Rightarrow> string list \<Rightarrow> string list" where
  "clean_comps rooted acc [] = rev acc"
| "clean_comps rooted acc (c # cs) =
     (if c = '''' \<or> c = ''.'' then clean_comps rooted acc cs
      else if c = ''..'' then
        (case acc of
           [] \<Rightarrow> if rooted then clean_comps rooted [] cs else clean_comps rooted [''..''] cs
         | a # as \<Rightarrow> if a = ''..'' then clean_comps rooted (''..'' # acc) cs
                     else clean_comps rooted as cs)
      else clean_comps rooted (c # acc) cs)"

fun strings_Join :: "string list \<Rightarrow> string \<Rightarrow> string" where
  "strings_Join [] sep = ''''"
| "strings_Join [x] sep = x"
| "strings_Join (x # y # ys) sep = x @ sep @ strings_Join (y # ys) sep"

definition filepath_Clean :: "string \<Rightarrow> string" where
  "filepath_Clean p =
     (if p = '''' then ''.''
      else
        (let rooted = (hd p = CHR ''/'');
             out = (if rooted then ''/'' else '''') @
                   strings_Join (clean_comps rooted [] (Split p CHR ''/'')) ''/''
         in if out = '''' then ''.'' else out))"

text \<open>\<open>filepath.Join\<close> of two elements: leading empty elements are ignored.\<close>

definition filepath_Join :: "string \<Rightarrow> string \<Rightarrow> string" where
  "filepath_Join a b =
     (if a \<noteq> '''' then filepath_Clean (a @ ''/'' @ b)
      else if b \<noteq> '''' then filepath_Clean b
      else '''')"

definition filepath_Base :: "string \<Rightarrow> string" where
  "filepath_Base p =
     (if p = '''' then ''.''
      else
        (let p1 = rev (dropWhile (\<lambda>c. c = CHR ''/'') (rev p));
             p2 = rev (takeWhile (\<lambda>c. c \<noteq> CHR ''/'') (rev p1))
         in if p2 = '''' then ''/'' else p2))"

definition filepath_Dir :: "string \<Rightarrow> string" where
  "filepath_Dir p = filepath_Clean (rev (dropWhile (\<lambda>c. c \<noteq> CHR ''/'') (rev p)))"

text \<open>The \<open>%d\<close> verb of \<open>fmt.Sprintf\<close> for a non-negative number.\<close>

fun itoa :: "nat \<Rightarrow> string" where
  "itoa n =
     (if n < 10 then [char_of (48 + n)]
      else itoa (n div 10) @ [char_of (48 + n mod 10)])"

declare itoa.simps [simp del]

section \<open>The runtime (libpod/runtime.go, the second document of registry.go)\<close>

subsection \<open>Data\<close>

text \<open>
  \<open>define.RuntimeStateStore\<close> is an integer type; the switch of \<open>makeRuntime\<close> names three
  of its constants, and every other value takes the default branch.
\<close>

datatype RuntimeStateStore =
    InMemoryStateStore
  | SQLiteStateStore
  | BoltDBStateStore
  | OtherStateStore nat

text \<open>The directories and storage settings that the database remembers.\<close>

record DBConfig =
  LibpodRoot :: string
  LibpodTmp :: string
  StorageRoot :: string
  StorageTmp :: string
  GraphDriver :: string
  DBVolumePath :: string

text \<open>
  The fields of \<open>config.Config\<close> that \<open>runtime.go\<close> reads.  \<open>RuntimePath\<close> is a slice
  that the code compares with nil, so it is an option; \<open>OCIRuntimes\<close> is a map from names
  to search paths, kept as the list of its entries (the keys are distinct).
\<close>

record Config =
  LockType :: string
  NumLocks :: "32 word"
  StateType :: RuntimeStateStore
  StaticDir :: string
  TmpDir :: string
  VolumePath :: string
  GraphRoot :: string
  RunRoot :: string
  GraphDriverName :: string
  Namespace :: string
  EventsLogFilePath :: string
  RuntimePath :: "string list option"
  OCIRuntimes :: "(string \<times> string list) list"
  OCIRuntime :: string
  RuntimeSupportsJSON :: "string list"
  RuntimeSupportsNoCgroups :: "string list"

record ConmonOCIRuntime =
  oci_name :: string
  oci_paths :: "string list"
  oci_supportsJSON :: bool
  oci_supportsNoCgroups :: bool

datatype State = InMemoryState | BoltState string
datatype Store = Store nat
datatype Manager = FileLockManager string | SHMLockManager string "32 word"

datatype Container = Container (ctr_ID: string)
datatype Pod = Pod (pod_ID: string)
datatype Volume = Volume (vol_Name: string)

record Runtime =
  config :: Config
  state :: "State option"
  store :: "Store option"
  storageService :: bool
  imageRuntime :: bool
  defaultOCIRuntime :: "ConmonOCIRuntime option"
  ociRuntimes :: "(string \<times> ConmonOCIRuntime) list"
  netPlugin :: bool
  conmonPath :: string
  lockManager :: "Manager option"
  doRenumber :: bool
  doMigrate :: bool
  valid :: bool
  eventer :: bool
  noStore :: bool

text \<open>
  \<open>new(Runtime)\<close> followed by the options: the configuration and the three flags an option
  can set; every other field is zero.
\<close>

definition newRuntime :: "Config \<Rightarrow> bool \<Rightarrow> bool \<Rightarrow> bool \<Rightarrow> Runtime" where
  "newRuntime c renumber mig nostore =
     \<lparr>config = c, state = None, store = None, storageService = False, imageRuntime = False,
      defaultOCIRuntime = None, ociRuntimes = [], netPlugin = False, conmonPath = '''',
      lockManager = None, doRenumber = renumber, doMigrate = mig, valid = False,
      eventer = False, noStore = nostore\<rparr>"

subsection \<open>The world outside the runtime\<close>

text \<open>
  What the collaborators answer in one run is an \<open>Env\<close>: the operating system, the state
  database, containers/storage, the lock package, the entities.  The effects of the run that
  the specification talks about are recorded, in order, in a trace; the file system is
  the part of the world that a later run sees again.  Debug logging is left out.
\<close>

datatype fstatus = Missing | Present | Unreadable

datatype logarg = S string | E error

datatype event =
    Warnf string "logarg list"
  | Errorf_log string "logarg list"
  | LockAlive
  | UnlockAlive
  | OpenFileLM string
  | NewFileLM string
  | OpenSHMLM string "32 word"
  | NewSHMLM string "32 word"
  | RemoveFile string
  | RenumberLocks
  | StateRefresh
  | CtrRefresh Container
  | PodRefresh Pod
  | VolRefresh Volume
  | CreateFile string
  | SystemEvent string
  | Migrate
  | CtrStop Container
  | StoreShutdown Store bool
  | StateClose

record Env =
  Geteuid :: nat
  IsRootless :: bool
  GetRootlessUID :: nat
  DefaultSHMLockPath :: string
  DefaultRootlessSHMLockPath :: string
  FindConmon :: "error + string"
  MkdirAll :: "string \<Rightarrow> error option"
  NewInMemoryState :: "error option"
  NewBoltState :: "string \<Rightarrow> error option"
  GetDBConfig :: "error + DBConfig"
  MergeDBConfig :: "DBConfig \<Rightarrow> error + DBConfig"
  ValidateDBConfig :: "error option"
  SetNamespace :: "string \<Rightarrow> error option"
  GetStore :: "error + Store"
  getStorageService :: "error option"
  newEventer :: "error option"
  newConmonOCIRuntime ::
    "string \<Rightarrow> string list \<Rightarrow> string \<Rightarrow> bool \<Rightarrow> bool \<Rightarrow> error + ConmonOCIRuntime"
  InitCNI :: "error option"
  GetLockfile :: "string \<Rightarrow> error option"
  GetRootlessPauseProcessPidPath :: "error + string"
  BecomeRootInUserNS :: "string \<Rightarrow> error + bool \<times> int"
  OpenFileLockManager :: "string \<Rightarrow> error option"
  NewFileLockManager :: "string \<Rightarrow> error option"
  OpenSHMLockManager :: "string \<Rightarrow> 32 word \<Rightarrow> error option"
  NewSHMLockManager :: "string \<Rightarrow> 32 word \<Rightarrow> error option"
  os_Remove :: "string \<Rightarrow> error option"
  renumberLocks :: "error option"
  migrate :: "error option"
  state_Refresh :: "error option"
  AllContainers :: "error + Container list"
  AllPods :: "error + Pod list"
  AllVolumes :: "error + Volume list"
  ctr_refresh :: "Container \<Rightarrow> error option"
  pod_refresh :: "Pod \<Rightarrow> error option"
  vol_refresh :: "Volume \<Rightarrow> error option"
  os_OpenFile_fault :: "string \<Rightarrow> error option"
  StopWithTimeout :: "Container \<Rightarrow> error option"
  store_Shutdown :: "Store \<Rightarrow> bool \<Rightarrow> error option"
  state_Close :: "error option"
  JSONDeepCopy :: "error option"

record Sys =
  rt :: Runtime
  fs :: "string \<Rightarrow> fstatus"
  aliveLocked :: bool
  trace :: "event list"

datatype 'a result = Ok 'a | Err error | Exit int

definition emit :: "event \<Rightarrow> Sys \<Rightarrow> Sys" where
  "emit ev s = s\<lparr>trace := trace s @ [ev]\<rparr>"

text \<open>Sequencing with the early return of Go: an error or a process exit ends the run.\<close>

definition andThen ::
  "'a result \<times> Sys \<Rightarrow> ('a \<Rightarrow> Sys \<Rightarrow> 'b result \<times> Sys) \<Rightarrow> 'b result \<times> Sys" where
  "andThen m f =
     (case m of
        (Ok a, s) \<Rightarrow> f a s
      | (Err e, s) \<Rightarrow> (Err e, s)
      | (Exit c, s) \<Rightarrow> (Exit c, s))"

text \<open>\<open>os.Stat\<close>: only whether it fails, and how.\<close>

definition os_Stat :: "Sys \<Rightarrow> string \<Rightarrow> error option" where
  "os_Stat s p =
     (case fs s p of
        Missing \<Rightarrow> Some ENOENT
      | Present \<Rightarrow> None
      | Unreadable \<Rightarrow> Some EACCES)"

text \<open>\<open>os.OpenFile(p, O_RDONLY|O_CREATE, 0644)\<close>: on success the file exists afterwards.\<close>

definition os_OpenFile_create :: "Env \<Rightarrow> string \<Rightarrow> Sys \<Rightarrow> error option \<times> Sys" where
  "os_OpenFile_create env p s =
     (case os_OpenFile_fault env p of
        Some e \<Rightarrow> (Some e, emit (CreateFile p) s)
      | None \<Rightarrow> (None, emit (CreateFile p) (s\<lparr>fs := (fs s)(p := Present)\<rparr>)))"

subsection \<open>configureStore and getLockManager\<close>

text \<open>\<open>configureStore\<close>, lines 835 to 860; the two handles it sets are flags here.\<close>

definition configureStore :: "Env \<Rightarrow> Sys \<Rightarrow> unit result \<times> Sys" where
  "configureStore env s =
     (case GetStore env of
        Inl err \<Rightarrow> (Err err, s)
      | Inr st \<Rightarrow>
          (let s1 = s\<lparr>rt := (rt s)\<lparr>store := Some st\<rparr>\<rparr> in
           case getStorageService env of
             Some err \<Rightarrow> (Err err, s1)
           | None \<Rightarrow>
               (Ok (), s1\<lparr>rt := (rt s1)\<lparr>storageService := True, imageRuntime := True\<rparr>\<rparr>)))"

text \<open>The path of the shared-memory lock segment.\<close>

definition shmLockPath :: "Env \<Rightarrow> string" where
  "shmLockPath env =
     (if IsRootless env
      then DefaultRootlessSHMLockPath env @ ''_'' @ itoa (GetRootlessUID env)
      else DefaultSHMLockPath env)"

text \<open>\<open>getLockManager\<close>, lines 256 to 311.  Each call of the lock package leaves an event.\<close>

definition getLockManager :: "Env \<Rightarrow> Sys \<Rightarrow> Manager result \<times> Sys" where
  "getLockManager env s =
     (let c = config (rt s) in
      if LockType c = ''file'' then
        (let lockPath = filepath_Join (TmpDir c) ''locks'';
             s1 = emit (OpenFileLM lockPath) s
         in case OpenFileLockManager env lockPath of
              None \<Rightarrow> (Ok (FileLockManager lockPath), s1)
            | Some err \<Rightarrow>
                if os_IsNotExist (Cause err) then
                  (let s2 = emit (NewFileLM lockPath) s1 in
                   case NewFileLockManager env lockPath of
                     Some err2 \<Rightarrow>
                       (Err (Wrapf err2 ''failed to get new file lock manager'' []), s2)
                   | None \<Rightarrow> (Ok (FileLockManager lockPath), s2))
                else (Err err, s1))
      else if LockType c = '''' \<or> LockType c = ''shm'' then
        (let lockPath = shmLockPath env;
             s1 = emit (OpenSHMLM lockPath (NumLocks c)) s
         in case OpenSHMLockManager env lockPath (NumLocks c) of
              None \<Rightarrow> (Ok (SHMLockManager lockPath (NumLocks c)), s1)
            | Some err \<Rightarrow>
                if os_IsNotExist (Cause err) then
                  (let s2 = emit (NewSHMLM lockPath (NumLocks c)) s1 in
                   case NewSHMLockManager env lockPath (NumLocks c) of
                     Some err2 \<Rightarrow>
                       (Err (Wrapf err2 ''failed to get new shm lock manager'' []), s2)
                   | None \<Rightarrow> (Ok (SHMLockManager lockPath (NumLocks c)), s2))
                else if Cause err = ERANGE \<and> doRenumber (rt s) then
                  (let s2 = emit (RemoveFile (filepath_Join ''/dev/shm'' lockPath)) s1 in
                   case os_Remove env (filepath_Join ''/dev/shm'' lockPath) of
                     Some err2 \<Rightarrow>
                       (Err (Wrapf err2 ''error removing libpod locks file %s'' [lockPath]), s2)
                   | None \<Rightarrow>
                       (let s3 = emit (NewSHMLM lockPath (NumLocks c)) s2 in
                        case NewSHMLockManager env lockPath (NumLocks c) of
                          Some err3 \<Rightarrow> (Err err3, s3)
                        | None \<Rightarrow> (Ok (SHMLockManager lockPath (NumLocks c)), s3)))
                else (Err err, s1))
      else (Err (Wrapf ErrInvalidArg ''unknown lock type %s'' [LockType c]), s))"

subsection \<open>refresh\<close>

text \<open>The bodies of the three loops of \<open>refresh\<close>, lines 748 to 762.\<close>

definition refresh_ctr :: "Env \<Rightarrow> Container \<Rightarrow> Sys \<Rightarrow> Sys" where
  "refresh_ctr env ctr s =
     (case ctr_refresh env ctr of
        Some err \<Rightarrow>
          emit (Errorf_log ''Error refreshing container %s: %v'' [S (ctr_ID ctr), E err])
            (emit (CtrRefresh ctr) s)
      | None \<Rightarrow> emit (CtrRefresh ctr) s)"

definition refresh_pod :: "Env \<Rightarrow> Pod \<Rightarrow> Sys \<Rightarrow> Sys" where
  "refresh_pod env pod s =
     (case pod_refresh env pod of
        Some err \<Rightarrow>
          emit (Errorf_log ''Error refreshing pod %s: %v'' [S (pod_ID pod), E err])
            (emit (PodRefresh pod) s)
      | None \<Rightarrow> emit (PodRefresh pod) s)"

definition refresh_vol :: "Env \<Rightarrow> Volume \<Rightarrow> Sys \<Rightarrow> Sys" where
  "refresh_vol env vol s =
     (case vol_refresh env vol of
        Some err \<Rightarrow>
          emit (Errorf_log ''Error refreshing volume %s: %v'' [S (vol_Name vol), E err])
            (emit (VolRefresh vol) s)
      | None \<Rightarrow> emit (VolRefresh vol) s)"

text \<open>
  \<open>(r *Runtime) refresh(alivePath)\<close>.  The three lists are read before any entity is
  refreshed; the three loops never return; the status file is created after them.
\<close>

definition refresh :: "Env \<Rightarrow> string \<Rightarrow> Sys \<Rightarrow> unit result \<times> Sys" where
  "refresh env alivePath s =
     (let s1 = emit StateRefresh s in
      case state_Refresh env of
        Some err \<Rightarrow> (Err err, s1)
      | None \<Rightarrow>
         (case AllContainers env of
            Inl err \<Rightarrow> (Err (Wrapf err ''error retrieving all containers from state'' []), s1)
          | Inr ctrs \<Rightarrow>
             (case AllPods env of
                Inl err \<Rightarrow> (Err (Wrapf err ''error retrieving all pods from state'' []), s1)
              | Inr pods \<Rightarrow>
                 (case AllVolumes env of
                    Inl err \<Rightarrow>
                      (Err (Wrapf err ''error retrieving all volumes from state'' []), s1)
                  | Inr vols \<Rightarrow>
                     (let s2 = fold (refresh_ctr env) ctrs s1;
                          s3 = fold (refresh_pod env) pods s2;
                          s4 = fold (refresh_vol env) vols s3
                      in case os_OpenFile_create env alivePath s4 of
                           (Some err, s5) \<Rightarrow>
                             (Err (Wrapf err ''error creating runtime status file %s'' [alivePath]),
                              s5)
                         | (None, s5) \<Rightarrow> (Ok (), emit (SystemEvent ''refresh'') s5))))))"

subsection \<open>makeRuntime: from the conmon binary to the network plugin\<close>

text \<open>\<open>os.MkdirAll\<close> with the check that lets an existing directory pass.\<close>

definition mkdir_unless_exists :: "Env \<Rightarrow> string \<Rightarrow> string \<Rightarrow> Sys \<Rightarrow> unit result \<times> Sys" where
  "mkdir_unless_exists env p msg s =
     (case MkdirAll env p of
        Some err \<Rightarrow> if \<not> os_IsExist err then (Err (Wrapf err msg [p]), s) else (Ok (), s)
      | None \<Rightarrow> (Ok (), s))"

text \<open>Lines 316 to 321.\<close>

definition setup_conmon :: "Env \<Rightarrow> Sys \<Rightarrow> unit result \<times> Sys" where
  "setup_conmon env s =
     (case FindConmon env of
        Inl err \<Rightarrow> (Err err, s)
      | Inr cPath \<Rightarrow> (Ok (), s\<lparr>rt := (rt s)\<lparr>conmonPath := cPath\<rparr>\<rparr>))"

text \<open>Lines 323 to 330.\<close>

definition setup_staticDir :: "Env \<Rightarrow> Sys \<Rightarrow> unit result \<times> Sys" where
  "setup_staticDir env s =
     mkdir_unless_exists env (StaticDir (config (rt s)))
       ''error creating runtime static files directory %s'' s"

text \<open>Lines 338 to 357.\<close>

definition setup_state :: "Env \<Rightarrow> Sys \<Rightarrow> unit result \<times> Sys" where
  "setup_state env s =
     (case StateType (config (rt s)) of
        InMemoryStateStore \<Rightarrow>
          (case NewInMemoryState env of
             Some err \<Rightarrow> (Err err, s)
           | None \<Rightarrow> (Ok (), s\<lparr>rt := (rt s)\<lparr>state := Some InMemoryState\<rparr>\<rparr>))
      | SQLiteStateStore \<Rightarrow>
          (Err (Wrapf ErrInvalidArg ''SQLite state is currently disabled'' []), s)
      | BoltDBStateStore \<Rightarrow>
          (let dbPath = filepath_Join (StaticDir (config (rt s))) ''bolt_state.db'' in
           case NewBoltState env dbPath of
             Some err \<Rightarrow> (Err err, s)
           | None \<Rightarrow> (Ok (), s\<lparr>rt := (rt s)\<lparr>state := Some (BoltState dbPath)\<rparr>\<rparr>))
      | OtherStateStore k \<Rightarrow>
          (Err (Wrapf ErrInvalidArg ''unrecognized state type passed (%v)'' [itoa k]), s))"

text \<open>
  Lines 359 to 367.  \<open>MergeDBConfig\<close> is not part of this file; it reconciles the
  directories and the storage settings of the configuration with those the database
  remembers, and the environment gives the reconciled values.
\<close>

definition setup_dbConfig :: "Env \<Rightarrow> Sys \<Rightarrow> unit result \<times> Sys" where
  "setup_dbConfig env s =
     (case GetDBConfig env of
        Inl err \<Rightarrow>
          (Err (Wrapf err ''error retrieving runtime configuration from database'' []), s)
      | Inr dbConfig \<Rightarrow>
          (case MergeDBConfig env dbConfig of
             Inl err \<Rightarrow>
               (Err (Wrapf err ''error merging database config into runtime config'' []), s)
           | Inr m \<Rightarrow>
               (Ok (), s\<lparr>rt := (rt s)\<lparr>config := (config (rt s))
                  \<lparr>StaticDir := LibpodRoot m, TmpDir := LibpodTmp m,
                   VolumePath := DBVolumePath m, GraphRoot := StorageRoot m,
                   RunRoot := StorageTmp m, GraphDriverName := GraphDriver m\<rparr>\<rparr>\<rparr>)))"

text \<open>Lines 378 to 385.\<close>

definition setup_validate :: "Env \<Rightarrow> Sys \<Rightarrow> unit result \<times> Sys" where
  "setup_validate env s =
     (case ValidateDBConfig env of
        Some err \<Rightarrow> (Err err, s)
      | None \<Rightarrow>
          (case SetNamespace env (Namespace (config (rt s))) of
             Some err \<Rightarrow> (Err (Wrapf err ''error setting libpod namespace in state'' []), s)
           | None \<Rightarrow> (Ok (), s)))"

text \<open>Lines 388 to 395.\<close>

definition setup_store :: "Env \<Rightarrow> Sys \<Rightarrow> unit result \<times> Sys" where
  "setup_store env s =
     (if Geteuid env \<noteq> 0 then (Ok (), s)
      else if noStore (rt s) then (Ok (), s)
      else configureStore env s)"

text \<open>Lines 407 to 415.\<close>

definition setup_eventer :: "Env \<Rightarrow> Sys \<Rightarrow> unit result \<times> Sys" where
  "setup_eventer env s =
     (case newEventer env of
        Some err \<Rightarrow> (Err err, s)
      | None \<Rightarrow> (Ok (), s\<lparr>rt := (rt s)\<lparr>eventer := True\<rparr>\<rparr>))"

text \<open>Lines 422 to 436.\<close>

definition setup_dirs :: "Env \<Rightarrow> Sys \<Rightarrow> unit result \<times> Sys" where
  "setup_dirs env s =
     andThen (mkdir_unless_exists env (TmpDir (config (rt s))) ''error creating tmpdir %s'' s)
       (\<lambda>_. mkdir_unless_exists env (filepath_Dir (EventsLogFilePath (config (rt s))))
               ''error creating events dirs %s'')"

text \<open>
  Lines 438 to 475: the deprecated \<open>runtime_path\<close>.  The map of runtimes is a list of
  entries with distinct keys; the two lookup tables are membership in the configured lists.
\<close>

definition oci_legacy :: "Env \<Rightarrow> Sys \<Rightarrow> unit result \<times> Sys" where
  "oci_legacy env s0 =
     (let s = s0\<lparr>rt := (rt s0)\<lparr>ociRuntimes := []\<rparr>\<rparr>;
          c = config (rt s)
      in case RuntimePath c of
           None \<Rightarrow> (Ok (), s)
         | Some paths \<Rightarrow>
             (let s1 = (if Geteuid env = 0
                        then emit (Warnf ''If you are using both runtime_path and runtime, the configuration from runtime_path is used'' [])
                               (emit (Warnf ''The configuration is using runtime_path, which is deprecated and will be removed in future.  Please use runtimes and runtime'' []) s)
                        else s)
              in if length paths = 0
                 then (Err (Wrapf ErrInvalidArg ''empty runtime path array passed'' []), s1)
                 else
                   (let name = filepath_Base (paths ! 0);
                        json = (name \<in> set (RuntimeSupportsJSON c));
                        nocgroups = (name \<in> set (RuntimeSupportsNoCgroups c))
                    in case newConmonOCIRuntime env name paths (conmonPath (rt s1)) json nocgroups of
                         Inl err \<Rightarrow> (Err err, s1)
                       | Inr ociRuntime \<Rightarrow>
                           (Ok (), s1\<lparr>rt := (rt s1)
                              \<lparr>ociRuntimes := AList.update name ociRuntime (ociRuntimes (rt s1)),
                               defaultOCIRuntime := Some ociRuntime\<rparr>\<rparr>))))"

text \<open>Lines 478 to 493: a runtime of the table that fails to initialise is logged and left out.\<close>

definition oci_init_one :: "Env \<Rightarrow> string \<times> string list \<Rightarrow> Sys \<Rightarrow> Sys" where
  "oci_init_one env entry s =
     (let name = fst entry; paths = snd entry; c = config (rt s);
          json = (name \<in> set (RuntimeSupportsJSON c));
          nocgroups = (name \<in> set (RuntimeSupportsNoCgroups c))
      in case newConmonOCIRuntime env name paths (conmonPath (rt s)) json nocgroups of
           Inl err \<Rightarrow>
             emit (Warnf ''Error initializing configured OCI runtime %s: %v'' [S name, E err]) s
         | Inr ociRuntime \<Rightarrow>
             s\<lparr>rt := (rt s)\<lparr>ociRuntimes := AList.update name ociRuntime (ociRuntimes (rt s))\<rparr>\<rparr>)"

definition oci_remaining :: "Env \<Rightarrow> Sys \<Rightarrow> unit result \<times> Sys" where
  "oci_remaining env s = (Ok (), fold (oci_init_one env) (OCIRuntimes (config (rt s))) s)"

text \<open>Lines 495 to 519.\<close>

definition oci_default :: "Env \<Rightarrow> Sys \<Rightarrow> unit result \<times> Sys" where
  "oci_default env s =
     (let c = config (rt s) in
      if OCIRuntime c \<noteq> '''' then
        (if HasPrefix (OCIRuntime c) ''/'' then
           (let name = filepath_Base (OCIRuntime c);
                json = (name \<in> set (RuntimeSupportsJSON c));
                nocgroups = (name \<in> set (RuntimeSupportsNoCgroups c))
            in case newConmonOCIRuntime env name [OCIRuntime c] (conmonPath (rt s)) json nocgroups of
                 Inl err \<Rightarrow> (Err err, s)
               | Inr ociRuntime \<Rightarrow>
                   (Ok (), s\<lparr>rt := (rt s)
                      \<lparr>ociRuntimes := AList.update name ociRuntime (ociRuntimes (rt s)),
                       defaultOCIRuntime := Some ociRuntime\<rparr>\<rparr>))
         else
           (case map_of (ociRuntimes (rt s)) (OCIRuntime c) of
              None \<Rightarrow>
                (Err (Wrapf ErrInvalidArg ''default OCI runtime %q not found'' [OCIRuntime c]), s)
            | Some ociRuntime \<Rightarrow>
                (Ok (), s\<lparr>rt := (rt s)\<lparr>defaultOCIRuntime := Some ociRuntime\<rparr>\<rparr>)))
      else (Ok (), s))"

text \<open>Lines 521 to 529.\<close>

definition oci_check :: "Sys \<Rightarrow> unit result \<times> Sys" where
  "oci_check s =
     (if length (ociRuntimes (rt s)) = 0
      then (Err (Wrapf ErrInvalidArg ''no OCI runtime has been configured'' []), s)
      else if defaultOCIRuntime (rt s) = None
      then (Err (Wrapf ErrInvalidArg ''no default OCI runtime was configured'' []), s)
      else (Ok (), s))"

fun run_phases :: "(Sys \<Rightarrow> unit result \<times> Sys) list \<Rightarrow> Sys \<Rightarrow> unit result \<times> Sys" where
  "run_phases [] s = (Ok (), s)"
| "run_phases (p # ps) s = andThen (p s) (\<lambda>_. run_phases ps)"

text \<open>Lines 438 to 529 of \<open>makeRuntime\<close>: the registry of OCI runtimes and its default.\<close>

definition setup_ociRuntimes :: "Env \<Rightarrow> Sys \<Rightarrow> unit result \<times> Sys" where
  "setup_ociRuntimes env =
     run_phases [oci_legacy env, oci_remaining env, oci_default env, oci_check]"

text \<open>Lines 531 to 538.\<close>

definition setup_tmpDir :: "Env \<Rightarrow> Sys \<Rightarrow> unit result \<times> Sys" where
  "setup_tmpDir env s =
     mkdir_unless_exists env (TmpDir (config (rt s)))
       ''error creating runtime temporary files directory %s'' s"

text \<open>Lines 540 to 547.\<close>

definition setup_cni :: "Env \<Rightarrow> Sys \<Rightarrow> unit result \<times> Sys" where
  "setup_cni env s =
     (if \<not> IsRootless env then
        (case InitCNI env of
           Some err \<Rightarrow> (Err (Wrapf err ''error configuring CNI network plugin'' []), s)
         | None \<Rightarrow> (Ok (), s\<lparr>rt := (rt s)\<lparr>netPlugin := True\<rparr>\<rparr>))
      else (Ok (), s))"

text \<open>
  The deferred function of line 396 looks at the local variable \<open>store\<close>, which nothing
  assigns (\<open>configureStore\<close> sets the field of the runtime), so it never does anything.
\<close>

definition makeRuntime_setup :: "Env \<Rightarrow> Sys \<Rightarrow> unit result \<times> Sys" where
  "makeRuntime_setup env =
     run_phases
       [setup_conmon env, setup_staticDir env, setup_state env, setup_dbConfig env,
        setup_validate env, setup_store env, setup_eventer env, setup_dirs env,
        setup_ociRuntimes env, setup_tmpDir env, setup_cni env]"

subsection \<open>makeRuntime: the restart check, the locks and the refresh\<close>

definition unlockAlive :: "Sys \<Rightarrow> Sys" where
  "unlockAlive s = emit UnlockAlive (s\<lparr>aliveLocked := False\<rparr>)"

text \<open>The rootless branch of the failed stat: give up the lock and re-execute.\<close>

definition becomeRoot :: "Env \<Rightarrow> Sys \<Rightarrow> unit result \<times> Sys" where
  "becomeRoot env s =
     (if Geteuid env \<noteq> 0 then
        (let s1 = unlockAlive s in
         case GetRootlessPauseProcessPidPath env of
           Inl err \<Rightarrow> (Err (Wrapf err ''could not get pause process pid file path'' []), s1)
         | Inr pausePid \<Rightarrow>
             (case BecomeRootInUserNS env pausePid of
                Inl err \<Rightarrow> (Err err, s1)
              | Inr (became, ret) \<Rightarrow> if became then (Exit ret, s1) else (Ok (), s1)))
      else (Ok (), s))"

text \<open>The stat of the status file; the result is the flag \<open>doRefresh\<close>.\<close>

definition checkAlive :: "Env \<Rightarrow> string \<Rightarrow> Sys \<Rightarrow> bool result \<times> Sys" where
  "checkAlive env runtimeAliveFile s =
     (case os_Stat s runtimeAliveFile of
        None \<Rightarrow> (Ok False, s)
      | Some err \<Rightarrow>
          andThen (becomeRoot env s)
            (\<lambda>_ s1. if os_IsNotExist err then (Ok True, s1)
                    else (Err (Wrapf err ''error reading runtime status file %s''
                                 [runtimeAliveFile]), s1)))"

text \<open>Lines 601 to 604: the assignment happens also when \<open>getLockManager\<close> fails.\<close>

definition setLockManager :: "Env \<Rightarrow> Sys \<Rightarrow> unit result \<times> Sys" where
  "setLockManager env s =
     (case getLockManager env s of
        (Ok manager, s1) \<Rightarrow> (Ok (), s1\<lparr>rt := (rt s1)\<lparr>lockManager := Some manager\<rparr>\<rparr>)
      | (Err err, s1) \<Rightarrow> (Err err, s1\<lparr>rt := (rt s1)\<lparr>lockManager := None\<rparr>\<rparr>)
      | (Exit c, s1) \<Rightarrow> (Exit c, s1))"

text \<open>Lines 606 to 613; \<open>renumberLocks\<close> is not part of this file.\<close>

definition doRenumberLocks :: "Env \<Rightarrow> Sys \<Rightarrow> unit result \<times> Sys" where
  "doRenumberLocks env s =
     (if doRenumber (rt s) then
        (case renumberLocks env of
           Some err \<Rightarrow> (Err err, emit RenumberLocks s)
         | None \<Rightarrow> (Ok (), emit RenumberLocks s))
      else (Ok (), s))"

text \<open>Lines 615 to 628.\<close>

definition refreshIfNeeded :: "Env \<Rightarrow> bool \<Rightarrow> string \<Rightarrow> Sys \<Rightarrow> unit result \<times> Sys" where
  "refreshIfNeeded env doRefresh runtimeAliveFile s =
     (if doRefresh then
        andThen (if store (rt s) = None then configureStore env s else (Ok (), s))
          (\<lambda>_. refresh env runtimeAliveFile)
      else (Ok (), s))"

text \<open>Lines 630 to 640; \<open>migrate\<close> is not part of this file.\<close>

definition markValid :: "Env \<Rightarrow> Sys \<Rightarrow> unit result \<times> Sys" where
  "markValid env s0 =
     (let s = s0\<lparr>rt := (rt s0)\<lparr>valid := True\<rparr>\<rparr> in
      if doMigrate (rt s) then
        (case migrate env of
           Some err \<Rightarrow> (Err err, emit Migrate s)
         | None \<Rightarrow> (Ok (), emit Migrate s))
      else (Ok (), s))"

text \<open>Lines 570 to 640, run while the deferred unlock is pending.\<close>

definition makeRuntime_locked :: "Env \<Rightarrow> string \<Rightarrow> Sys \<Rightarrow> unit result \<times> Sys" where
  "makeRuntime_locked env runtimeAliveFile s =
     andThen (checkAlive env runtimeAliveFile s)
       (\<lambda>doRefresh.
          run_phases
            [setLockManager env, doRenumberLocks env,
             refreshIfNeeded env doRefresh runtimeAliveFile, markValid env])"

text \<open>
  Lines 549 to 641.  The deferred function unlocks the lock file if it is still locked
  when \<open>makeRuntime\<close> returns; \<open>os.Exit\<close> does not run deferred functions.
\<close>

definition aliveFile :: "Sys \<Rightarrow> string" where
  "aliveFile s = filepath_Join (TmpDir (config (rt s))) ''alive''"

definition makeRuntime_reboot :: "Env \<Rightarrow> Sys \<Rightarrow> unit result \<times> Sys" where
  "makeRuntime_reboot env s =
     (let runtimeAliveLock = filepath_Join (TmpDir (config (rt s))) ''alive.lck'';
          runtimeAliveFile = aliveFile s
      in case GetLockfile env runtimeAliveLock of
           Some err \<Rightarrow> (Err (Wrapf err ''error acquiring runtime init lock'' []), s)
         | None \<Rightarrow>
             (case makeRuntime_locked env runtimeAliveFile
                     (emit LockAlive (s\<lparr>aliveLocked := True\<rparr>)) of
                (Exit c, s1) \<Rightarrow> (Exit c, s1)
              | (res, s1) \<Rightarrow> (res, if aliveLocked s1 then unlockAlive s1 else s1)))"

definition makeRuntime :: "Env \<Rightarrow> Sys \<Rightarrow> unit result \<times> Sys" where
  "makeRuntime env s = andThen (makeRuntime_setup env s) (\<lambda>_. makeRuntime_reboot env)"

subsection \<open>GetConfig and Shutdown\<close>

text \<open>\<open>GetConfig\<close>, lines 644 to 660.\<close>

definition GetConfig :: "Env \<Rightarrow> Sys \<Rightarrow> error + Config" where
  "GetConfig env s =
     (if \<not> valid (rt s) then Inl ErrRuntimeStopped
      else
        (case JSONDeepCopy env of
           Some err \<Rightarrow> Inl (Wrapf err ''error copying config'' [])
         | None \<Rightarrow> Inr (config (rt s))))"

text \<open>\<open>Shutdown\<close>, lines 673 to 713, in its four steps: the flag, the containers, the store, the state.\<close>

definition stop_ctr :: "Env \<Rightarrow> Container \<Rightarrow> Sys \<Rightarrow> Sys" where
  "stop_ctr env ctr s =
     (case StopWithTimeout env ctr of
        Some err \<Rightarrow>
          emit (Errorf_log ''Error stopping container %s: %v'' [S (ctr_ID ctr), E err])
            (emit (CtrStop ctr) s)
      | None \<Rightarrow> emit (CtrStop ctr) s)"

definition stopAll :: "Env \<Rightarrow> Sys \<Rightarrow> Sys" where
  "stopAll env s =
     (case AllContainers env of
        Inl err \<Rightarrow> emit (Errorf_log ''Error retrieving containers from database: %v'' [E err]) s
      | Inr ctrs \<Rightarrow> fold (stop_ctr env) ctrs s)"

definition shutdownStore :: "Env \<Rightarrow> bool \<Rightarrow> Sys \<Rightarrow> error option \<times> Sys" where
  "shutdownStore env force s =
     (case store (rt s) of
        None \<Rightarrow> (None, s)
      | Some st \<Rightarrow>
          (case store_Shutdown env st force of
             Some err \<Rightarrow>
               (Some (Wrapf err ''Error shutting down container storage'' []),
                emit (StoreShutdown st force) s)
           | None \<Rightarrow> (None, emit (StoreShutdown st force) s)))"

definition closeState :: "Env \<Rightarrow> error option \<Rightarrow> Sys \<Rightarrow> error option \<times> Sys" where
  "closeState env lastError s =
     (let s1 = emit StateClose s in
      case state_Close env of
        Some err \<Rightarrow>
          (Some err,
           case lastError of
             Some le \<Rightarrow> emit (Errorf_log ''%v'' [E le]) s1
           | None \<Rightarrow> s1)
      | None \<Rightarrow> (lastError, s1))"

definition Shutdown :: "Env \<Rightarrow> bool \<Rightarrow> Sys \<Rightarrow> error option \<times> Sys" where
  "Shutdown env force s =
     (if \<not> valid (rt s) then (Some ErrRuntimeStopped, s)
      else
        (let s1 = s\<lparr>rt := (rt s)\<lparr>valid := False\<rparr>\<rparr>;
             s2 = (if force then stopAll env s1 else s1);
             (lastError, s3) = shutdownStore env force s2
         in closeState env lastError s3))"

definition DeferredShutdown :: "Env \<Rightarrow> bool \<Rightarrow> Sys \<Rightarrow> Sys" where
  "DeferredShutdown env force s = snd (Shutdown env force s)"

text \<open>The calls a client can make on a runtime it holds, and what they return.\<close>

datatype call = CallGetConfig | CallShutdown bool | CallDeferredShutdown bool

datatype reply = GotConfig "error + Config" | ShutdownReturned "error option" | NoReply

definition perform :: "Env \<Rightarrow> call \<Rightarrow> Sys \<Rightarrow> reply \<times> Sys" where
  "perform env c s =
     (case c of
        CallGetConfig \<Rightarrow> (GotConfig (GetConfig env s), s)
      | CallShutdown force \<Rightarrow>
          (case Shutdown env force s of (err, s1) \<Rightarrow> (ShutdownReturned err, s1))
      | CallDeferredShutdown force \<Rightarrow> (NoReply, DeferredShutdown env force s))"

text \<open>A client's session: each call meets the environment of its moment.\<close>

fun session :: "(Env \<times> call) list \<Rightarrow> Sys \<Rightarrow> reply list \<times> Sys" where
  "session [] s = ([], s)"
| "session (ec # rest) s =
     (case perform (fst ec) (snd ec) s of
        (r, s1) \<Rightarrow> (case session rest s1 of (rs, s2) \<Rightarrow> (r # rs, s2)))"

section \<open>The Lock Manager\<close>

text \<open>
  Package \<open>libpod/lock\<close> is not among the sources: \<open>runtime.go\<close> only opens and creates
  managers.  The pool is modelled from the specification's contract, as a bitmap with one
  entry per index, \<open>True\<close> for an index that is held.
\<close>

type_synonym LockPool = "bool list"

text \<open>Modelled from the spec: a manager of pool size \<open>n\<close> starts with every index free.\<close>

definition newLockPool :: "nat \<Rightarrow> LockPool" where
  "newLockPool n = replicate n False"

text \<open>Modelled from the spec: the lowest-numbered free index of the pool, if there is one.\<close>

fun lowest_free :: "LockPool \<Rightarrow> nat option" where
  "lowest_free [] = None"
| "lowest_free (b # bs) = (if \<not> b then Some 0 else map_option Suc (lowest_free bs))"

text \<open>
  Modelled from the spec: \<open>allocate() \<rightarrow> Lock | ErrNoFreeLocks\<close> reserves the
  lowest-numbered free index; it fails when the pool is exhausted.
\<close>

definition allocate :: "LockPool \<Rightarrow> error + nat \<times> LockPool" where
  "allocate p =
     (case lowest_free p of
        None \<Rightarrow> Inl ErrNoFreeLocks
      | Some i \<Rightarrow> Inr (i, p[i := True]))"

text \<open>
  Modelled from the spec: \<open>free(index)\<close> returns an index to the pool.  Of the two
  behaviours the specification allows for an index that is not held, this is the silent,
  idempotent one; an index outside the pool changes nothing.
\<close>

definition free :: "nat \<Rightarrow> LockPool \<Rightarrow> LockPool" where
  "free i p = (if i < length p then p[i := False] else p)"

text \<open>Modelled from the spec: a sequence of allocate and free operations on one manager.\<close>

datatype lock_op = Allocate | Free nat

fun lock_step :: "lock_op \<Rightarrow> LockPool \<Rightarrow> LockPool" where
  "lock_step Allocate p = (case allocate p of Inl e \<Rightarrow> p | Inr (i, p') \<Rightarrow> p')"
| "lock_step (Free i) p = free i p"

definition lock_run :: "lock_op list \<Rightarrow> nat \<Rightarrow> LockPool" where
  "lock_run ops n = fold lock_step ops (newLockPool n)"

definition held :: "LockPool \<Rightarrow> nat set" where
  "held p = {i. i < length p \<and> p ! i}"

section \<open>What a run leaves in the trace\<close>

text \<open>The events of one entity's refresh: the call, and the log entry when it fails.\<close>

definition ctr_events :: "Env \<Rightarrow> Container \<Rightarrow> event list" where
  "ctr_events env ctr =
     CtrRefresh ctr #
       (case ctr_refresh env ctr of
          Some err \<Rightarrow> [Errorf_log ''Error refreshing container %s: %v'' [S (ctr_ID ctr), E err]]
        | None \<Rightarrow> [])"

definition pod_events :: "Env \<Rightarrow> Pod \<Rightarrow> event list" where
  "pod_events env pod =
     PodRefresh pod #
       (case pod_refresh env pod of
          Some err \<Rightarrow> [Errorf_log ''Error refreshing pod %s: %v'' [S (pod_ID pod), E err]]
        | None \<Rightarrow> [])"

definition vol_events :: "Env \<Rightarrow> Volume \<Rightarrow> event list" where
  "vol_events env vol =
     VolRefresh vol #
       (case vol_refresh env vol of
          Some err \<Rightarrow> [Errorf_log ''Error refreshing volume %s: %v'' [S (vol_Name vol), E err]]
        | None \<Rightarrow> [])"

definition stop_events :: "Env \<Rightarrow> Container \<Rightarrow> event list" where
  "stop_events env ctr =
     CtrStop ctr #
       (case StopWithTimeout env ctr of
          Some err \<Rightarrow> [Errorf_log ''Error stopping container %s: %v'' [S (ctr_ID ctr), E err]]
        | None \<Rightarrow> [])"

text \<open>
  The events the restart recovery is about: the refresh of an entity and the creation of a
  file.  \<open>recovery\<close> keeps these events of a trace, in order.
\<close>

fun recovery_event :: "event \<Rightarrow> bool" where
  "recovery_event (CtrRefresh c) = True"
| "recovery_event (PodRefresh p) = True"
| "recovery_event (VolRefresh v) = True"
| "recovery_event (CreateFile p) = True"
| "recovery_event ev = False"

definition recovery :: "Sys \<Rightarrow> event list" where
  "recovery s = filter recovery_event (trace s)"


text \<open>Whether one of the four store operations that open \<open>refresh\<close> fails.\<close>

definition store_listing_fails :: "Env \<Rightarrow> bool" where
  "store_listing_fails env =
     (state_Refresh env \<noteq> None \<or> isl (AllContainers env) \<or> isl (AllPods env) \<or>
      isl (AllVolumes env))"

text \<open>What the stopping of all containers, the store and the state leave in the trace.\<close>

definition stopAll_events :: "Env \<Rightarrow> event list" where
  "stopAll_events env =
     (case AllContainers env of
        Inl err \<Rightarrow> [Errorf_log ''Error retrieving containers from database: %v'' [E err]]
      | Inr ctrs \<Rightarrow> concat (map (stop_events env) ctrs))"

definition store_events :: "bool \<Rightarrow> Sys \<Rightarrow> event list" where
  "store_events force s =
     (case store (rt s) of None \<Rightarrow> [] | Some st \<Rightarrow> [StoreShutdown st force])"

text \<open>The error of the store's shutdown, wrapped as \<open>Shutdown\<close> wraps it.\<close>

definition store_error :: "Env \<Rightarrow> bool \<Rightarrow> Sys \<Rightarrow> error option" where
  "store_error env force s =
     (case store (rt s) of
        None \<Rightarrow> None
      | Some st \<Rightarrow>
          map_option (\<lambda>err. Wrapf err ''Error shutting down container storage'' [])
            (store_Shutdown env st force))"

definition close_events :: "Env \<Rightarrow> error option \<Rightarrow> event list" where
  "close_events env lastError =
     StateClose #
       (case state_Close env of
          Some err \<Rightarrow> (case lastError of Some le \<Rightarrow> [Errorf_log ''%v'' [E le]] | None \<Rightarrow> [])
        | None \<Rightarrow> [])"

text \<open>What a stopped runtime answers to a call.\<close>

fun stopped_reply :: "call \<Rightarrow> reply" where
  "stopped_reply CallGetConfig = GotConfig (Inl ErrRuntimeStopped)"
| "stopped_reply (CallShutdown force) = ShutdownReturned (Some ErrRuntimeStopped)"
| "stopped_reply (CallDeferredShutdown force) = NoReply"


definition is_Ok :: "'a result \<Rightarrow> bool" where
  "is_Ok r = (case r of Ok a \<Rightarrow> True | Err e \<Rightarrow> False | Exit c \<Rightarrow> False)"

text \<open>
  A bootstrap reaches the lock manager when everything before line 601 succeeds: the
  set-up, the lock file and the check of the status file.
\<close>

definition reaches_lock_manager :: "Env \<Rightarrow> Sys \<Rightarrow> bool" where
  "reaches_lock_manager env s =
     (case makeRuntime_setup env s of
        (Ok u, s1) \<Rightarrow>
          GetLockfile env (filepath_Join (TmpDir (config (rt s1))) ''alive.lck'') = None \<and>
          is_Ok (fst (checkAlive env (aliveFile s1) (emit LockAlive (s1\<lparr>aliveLocked := True\<rparr>))))
      | (Err e, s1) \<Rightarrow> False
      | (Exit c, s1) \<Rightarrow> False)"

text \<open>A bootstrap reaches the choice of the state when the two steps before it succeed.\<close>

definition reaches_state :: "Env \<Rightarrow> Sys \<Rightarrow> bool" where
  "reaches_state env s =
     is_Ok (fst (run_phases [setup_conmon env, setup_staticDir env] s))"

subsection \<open>Auxiliary notions of the proofs\<close>

definition appendTrace :: "event list \<Rightarrow> Sys \<Rightarrow> Sys" where
  "appendTrace evs s = s\<lparr>trace := trace s @ evs\<rparr>"

definition refresh_loops ::
  "Env \<Rightarrow> Container list \<Rightarrow> Pod list \<Rightarrow> Volume list \<Rightarrow> event list" where
  "refresh_loops env ctrs pods vols =
     concat (map (ctr_events env) ctrs) @ concat (map (pod_events env) pods) @
     concat (map (vol_events env) vols)"

text \<open>A step keeps an observation of the system when it never changes it.\<close>

definition keeps :: "(Sys \<Rightarrow> 'a) \<Rightarrow> (Sys \<Rightarrow> 'b result \<times> Sys) \<Rightarrow> bool" where
  "keeps f p = (\<forall>s. f (snd (p s)) = f s)"

text \<open>What the restart recovery can see: the recovery events and the file system.\<close>

definition seen :: "Sys \<Rightarrow> event list \<times> (string \<Rightarrow> fstatus)" where
  "seen s = (recovery s, fs s)"

text \<open>The settings that decide the state and the lock manager, and the validity flag.\<close>

definition settings :: "Sys \<Rightarrow> string \<times> RuntimeStateStore \<times> bool" where
  "settings s = (LockType (config (rt s)), StateType (config (rt s)), valid (rt s))"


definition afterCheck :: "Env \<Rightarrow> bool \<Rightarrow> string \<Rightarrow> Sys \<Rightarrow> unit result \<times> Sys" where
  "afterCheck env d alive =
     run_phases [setLockManager env, doRenumberLocks env, refreshIfNeeded env d alive,
                 markValid env]"


section \<open>A concrete host\<close>

text \<open>
  An environment in which every collaborator succeeds, run as root with the shared-memory
  locks and the Bolt database, and a state that holds one container, one pod and one volume.
  The instances below change one answer at a time.
\<close>

definition host_config :: Config where
  "host_config =
     \<lparr>LockType = ''shm'', NumLocks = 2048, StateType = BoltDBStateStore,
      StaticDir = ''/var/lib/containers/storage/libpod'', TmpDir = ''/run/libpod'',
      VolumePath = ''/var/lib/containers/storage/volumes'',
      GraphRoot = ''/var/lib/containers/storage'', RunRoot = ''/run/containers/storage'',
      GraphDriverName = ''overlay'', Namespace = '''',
      EventsLogFilePath = ''/run/libpod/events/events.log'',
      RuntimePath = None,
      OCIRuntimes = [(''runc'', [''/usr/bin/runc'']), (''crun'', [''/usr/bin/crun''])],
      OCIRuntime = ''runc'',
      RuntimeSupportsJSON = [''crun'', ''runc''],
      RuntimeSupportsNoCgroups = [''crun'']\<rparr>"

definition host_db :: DBConfig where
  "host_db =
     \<lparr>LibpodRoot = ''/var/lib/containers/storage/libpod'', LibpodTmp = ''/run/libpod'',
      StorageRoot = ''/var/lib/containers/storage'', StorageTmp = ''/run/containers/storage'',
      GraphDriver = ''overlay'', DBVolumePath = ''/var/lib/containers/storage/volumes''\<rparr>"

definition host_env :: Env where
  "host_env =
     \<lparr>Geteuid = 0, IsRootless = False, GetRootlessUID = 0,
      DefaultSHMLockPath = ''/libpod_lock'',
      DefaultRootlessSHMLockPath = ''/libpod_rootless_lock'',
      FindConmon = Inr ''/usr/bin/conmon'',
      MkdirAll = (\<lambda>p. None),
      NewInMemoryState = None,
      NewBoltState = (\<lambda>p. None),
      GetDBConfig = Inr host_db,
      MergeDBConfig = (\<lambda>d. Inr d),
      ValidateDBConfig = None,
      SetNamespace = (\<lambda>n. None),
      GetStore = Inr (Store 0),
      getStorageService = None,
      newEventer = None,
      newConmonOCIRuntime =
        (\<lambda>name paths conmon json nocgroups.
           Inr \<lparr>oci_name = name, oci_paths = paths, oci_supportsJSON = json,
                oci_supportsNoCgroups = nocgroups\<rparr>),
      InitCNI = None,
      GetLockfile = (\<lambda>p. None),
      GetRootlessPauseProcessPidPath = Inr ''/run/user/1000/libpod/pause.pid'',
      BecomeRootInUserNS = (\<lambda>p. Inr (False, 0)),
      OpenFileLockManager = (\<lambda>p. None),
      NewFileLockManager = (\<lambda>p. None),
      OpenSHMLockManager = (\<lambda>p n. None),
      NewSHMLockManager = (\<lambda>p n. None),
      os_Remove = (\<lambda>p. None),
      renumberLocks = None,
      migrate = None,
      state_Refresh = None,
      AllContainers = Inr [Container ''c1''],
      AllPods = Inr [Pod ''p1''],
      AllVolumes = Inr [Volume ''v1''],
      ctr_refresh = (\<lambda>c. None),
      pod_refresh = (\<lambda>p. None),
      vol_refresh = (\<lambda>v. None),
      os_OpenFile_fault = (\<lambda>p. None),
      StopWithTimeout = (\<lambda>c. None),
      store_Shutdown = (\<lambda>st force. None),
      state_Close = None,
      JSONDeepCopy = None\<rparr>"

text \<open>A process that starts a bootstrap on a file system: nothing locked, nothing done.\<close>

definition start :: "Runtime \<Rightarrow> (string \<Rightarrow> fstatus) \<Rightarrow> Sys" where
  "start r files = \<lparr>rt = r, fs = files, aliveLocked = False, trace = []\<rparr>"

definition host_start :: Sys where
  "host_start = start (newRuntime host_config False False False) (\<lambda>p. Missing)"

text \<open>The same host when the refresh of every container fails.\<close>

definition host_env_ctr_fails :: Env where
  "host_env_ctr_fails = host_env\<lparr>ctr_refresh := (\<lambda>c. Some (Foreign 7))\<rparr>"

text \<open>The system after a successful bootstrap of the host with an empty temporary directory.\<close>

definition host_running :: Sys where
  "host_running = snd (makeRuntime host_env host_start)"

text \<open>
  The host while a container is in use: the store refuses an unforced shutdown, and the
  container cannot be stopped.
\<close>

definition host_env_in_use :: Env where
  "host_env_in_use =
     host_env\<lparr>StopWithTimeout := (\<lambda>c. Some (Foreign 5)),
               store_Shutdown := (\<lambda>st force. if force then None else Some (Foreign 3))\<rparr>"

text \<open>
  The host after the number of locks was changed: the segment is there with another size.
  The bootstrap is run once without and once with the request to renumber.
\<close>

definition host_env_resized :: Env where
  "host_env_resized =
     host_env\<lparr>OpenSHMLockManager :=
       (\<lambda>p n. Some (Wrapf ERANGE ''failed to open %d locks in %s'' []))\<rparr>"

definition renumber_start :: Sys where
  "renumber_start = start (newRuntime host_config True False False) (\<lambda>p. Missing)"

text \<open>The host with the file locks, before the lock directory exists.\<close>

definition file_start :: Sys where
  "file_start =
     start (newRuntime (host_config\<lparr>LockType := ''file''\<rparr>) False False False) (\<lambda>p. Missing)"

definition host_env_no_lock_dir :: Env where
  "host_env_no_lock_dir =
     host_env\<lparr>OpenFileLockManager := (\<lambda>p. Some (Wrapf ENOENT ''open %s'' [p]))\<rparr>"

text \<open>Two misconfigured hosts: an unknown lock backend, an unknown state store.\<close>

definition bad_lock_start :: Sys where
  "bad_lock_start =
     start (newRuntime (host_config\<lparr>LockType := ''flock''\<rparr>) False False False) (\<lambda>p. Missing)"

definition bad_state_start :: Sys where
  "bad_state_start =
     start (newRuntime (host_config\<lparr>StateType := OtherStateStore 7\<rparr>) False False False)
       (\<lambda>p. Missing)"

text \<open>
  A configuration that still has the deprecated \<open>runtime_path\<close> and also names a runtime
  of the table.
\<close>

definition legacy_start :: Sys where
  "legacy_start =
     start (newRuntime
              (host_config\<lparr>RuntimePath := Some [''/usr/libexec/legacy/runc''],
                 OCIRuntimes := [(''crun'', [''/usr/bin/crun''])],
                 OCIRuntime := ''crun''\<rparr>) False False False)
       (\<lambda>p. Missing)"


section \<open>Properties of the namespace functions\<close>

lemmas mode_defs =
  Default_def Host_def Path_def FromContainer_def FromPod_def Private_def
  NoNetwork_def Bridge_def Slirp_def

lemma validate_nil: "validate None = None"
  by (simp add: validate_def)

lemma validate_Some_iff:
  "(validate (Some n) = None) =
     (NSMode n \<in> {'''', Default, Host, Path, FromContainer, FromPod, Private} \<and>
      ((Value n \<noteq> '''') = (NSMode n \<in> {Path, FromContainer})))"
  by (auto simp add: validate_def check_value_def mode_defs)

lemma validate_network_modes:
  "validate (Some \<lparr>NSMode = NoNetwork, Value = v\<rparr>) \<noteq> None \<and>
   validate (Some \<lparr>NSMode = Bridge, Value = v\<rparr>) \<noteq> None \<and>
   validate (Some \<lparr>NSMode = Slirp, Value = v\<rparr>) \<noteq> None"
  by (simp add: validate_def mode_defs)

text \<open>
  Claim C9.  \<open>validate\<close> on a nil namespace succeeds.  On a namespace \<open>n\<close> it succeeds
  exactly when the mode is one of the empty string, default, host, path, container, pod and
  private, and the value is non-empty exactly when the mode is path or container.  The
  network modes none, bridge and slirp4netns are rejected whatever the value is.
\<close>

theorem validate_accepts_iff:
  "validate None = None \<and>
   (\<forall>n. (validate (Some n) = None) =
     (NSMode n \<in> {'''', Default, Host, Path, FromContainer, FromPod, Private} \<and>
      ((Value n \<noteq> '''') = (NSMode n \<in> {Path, FromContainer})))) \<and>
   (\<forall>v. validate (Some \<lparr>NSMode = NoNetwork, Value = v\<rparr>) \<noteq> None \<and>
        validate (Some \<lparr>NSMode = Bridge, Value = v\<rparr>) \<noteq> None \<and>
        validate (Some \<lparr>NSMode = Slirp, Value = v\<rparr>) \<noteq> None)"
  using validate_nil validate_Some_iff validate_network_modes by blast

theorem validate_accepts_iff_witness:
  "validate (Some \<lparr>NSMode = ''path'', Value = ''/proc/1/ns/net''\<rparr>) = None \<and>
   validate (Some \<lparr>NSMode = ''host'', Value = ''/proc/1/ns/net''\<rparr>) \<noteq> None \<and>
   validate (Some \<lparr>NSMode = ''container'', Value = ''''\<rparr>) \<noteq> None \<and>
   validate (Some \<lparr>NSMode = ''none'', Value = ''''\<rparr>) \<noteq> None"
proof -
  have a: "\<And>n. (validate (Some n) = None) =
     (NSMode n \<in> {'''', Default, Host, Path, FromContainer, FromPod, Private} \<and>
      ((Value n \<noteq> '''') = (NSMode n \<in> {Path, FromContainer})))"
    using validate_accepts_iff by blast
  show ?thesis
    by (simp add: a mode_defs)
qed

lemma HasPrefix_mem:
  assumes "HasPrefix s p" and "c \<in> set p"
  shows "c \<in> set s"
proof -
  from assms(1) have "take (length p) s = p" by (simp add: HasPrefix_def)
  then have "set p \<subseteq> set s" by (metis set_take_subset)
  with assms(2) show ?thesis by blast
qed

lemma SplitN_two:
  assumes "sep \<in> set s"
  shows "SplitN s sep 2 =
           [takeWhile (\<lambda>c. c \<noteq> sep) s, tl (dropWhile (\<lambda>c. c \<noteq> sep) s)]"
proof -
  have "nat 2 - 1 = Suc 0" by simp
  then show ?thesis using assms by (simp add: SplitN_def)
qed

lemma SplitN_two_length:
  assumes "HasPrefix ns p" and "sep \<in> set p"
  shows "length (SplitN ns sep 2) = 2"
  using HasPrefix_mem[OF assms] by (simp add: SplitN_two)

lemma SplitN_ns: "HasPrefix ns ''ns:'' \<Longrightarrow> length (SplitN ns CHR '':'' 2) = 2"
  using SplitN_two_length[of ns "''ns:''" "CHR '':''"] by simp

lemma SplitN_container:
  "HasPrefix ns ''container:'' \<Longrightarrow> length (SplitN ns CHR '':'' 2) = 2"
  using SplitN_two_length[of ns "''container:''" "CHR '':''"] by simp

lemma parse_err_nil: "snd (snd (ParseNetworkNamespace ns)) = None"
  using SplitN_ns[of ns] SplitN_container[of ns]
  by (simp add: ParseNetworkNamespace_def Let_def)

lemma parse_default:
  assumes "ns \<notin> {''bridge'', ''none'', ''host'', ''private''}"
    and "\<not> HasPrefix ns ''ns:''" and "\<not> HasPrefix ns ''container:''"
  shows "ParseNetworkNamespace ns =
           (\<lparr>NSMode = Bridge, Value = ''''\<rparr>, Split ns CHR '','', None)"
  using assms by (simp add: ParseNetworkNamespace_def zeroNamespace_def)

lemma parse_ns_alone:
  "ParseNetworkNamespace ''ns:'' = (\<lparr>NSMode = Path, Value = ''''\<rparr>, [], None)"
  by (simp add: ParseNetworkNamespace_def zeroNamespace_def HasPrefix_def SplitN_def)

text \<open>
  Claim C10.  \<open>ParseNetworkNamespace\<close> returns a nil error for every input.  An input
  that is none of bridge, none, host and private and starts with neither \<open>ns:\<close> nor
  \<open>container:\<close> is split at the commas into CNI networks, with mode bridge.  For an input
  with one of the two prefixes \<open>SplitN\<close> with limit 2 gives exactly two parts, so the two
  error branches cannot be taken; \<open>ns:\<close> alone gives mode path with an empty value.
\<close>

theorem ParseNetworkNamespace_never_fails:
  "snd (snd (ParseNetworkNamespace ns)) = None \<and>
   (ns \<notin> {''bridge'', ''none'', ''host'', ''private''} \<and>
    \<not> HasPrefix ns ''ns:'' \<and> \<not> HasPrefix ns ''container:'' \<longrightarrow>
      ParseNetworkNamespace ns =
        (\<lparr>NSMode = Bridge, Value = ''''\<rparr>, Split ns CHR '','', None)) \<and>
   (HasPrefix ns ''ns:'' \<or> HasPrefix ns ''container:'' \<longrightarrow>
      length (SplitN ns CHR '':'' 2) = 2) \<and>
   ParseNetworkNamespace ''ns:'' = (\<lparr>NSMode = Path, Value = ''''\<rparr>, [], None)"
  using parse_err_nil[of ns] parse_default[of ns] SplitN_ns[of ns] SplitN_container[of ns]
    parse_ns_alone
  by blast

theorem ParseNetworkNamespace_never_fails_witness:
  "ParseNetworkNamespace ''net1,net2'' =
     (\<lparr>NSMode = ''bridge'', Value = ''''\<rparr>, [''net1'', ''net2''], None) \<and>
   length (SplitN ''container:web'' CHR '':'' 2) = 2"
proof -
  have s: "Split ''net1,net2'' CHR '','' = [''net1'', ''net2'']"
    by (simp add: Split_def SplitN_def Count_def)
  have a: "ParseNetworkNamespace ''net1,net2'' =
             (\<lparr>NSMode = Bridge, Value = ''''\<rparr>, Split ''net1,net2'' CHR '','', None)"
    using ParseNetworkNamespace_never_fails[of "''net1,net2''"]
    by (simp add: HasPrefix_def)
  have b: "length (SplitN ''container:web'' CHR '':'' 2) = 2"
    using ParseNetworkNamespace_never_fails[of "''container:web''"]
    by (simp add: HasPrefix_def)
  from a b s show ?thesis by (simp add: Bridge_def)
qed

section \<open>Properties of the Lock Manager\<close>

lemma lowest_free_Some:
  "lowest_free p = Some i \<Longrightarrow> i < length p \<and> \<not> p ! i \<and> (\<forall>j<i. p ! j)"
proof (induction p arbitrary: i)
  case Nil
  then show ?case by simp
next
  case (Cons b bs)
  show ?case
  proof (cases b)
    case False
    with Cons.prems show ?thesis by simp
  next
    case True
    with Cons.prems obtain k where k: "lowest_free bs = Some k" and i: "i = Suc k"
      by auto
    from Cons.IH[OF k] have ih: "k < length bs" "\<not> bs ! k" "\<forall>j<k. bs ! j" by auto
    have "\<forall>j<Suc k. (b # bs) ! j"
    proof (intro allI impI)
      fix j assume "j < Suc k"
      then show "(b # bs) ! j" using True ih(3) by (cases j) auto
    qed
    with ih i show ?thesis by simp
  qed
qed

lemma lowest_free_None: "(lowest_free p = None) = (\<forall>j<length p. p ! j)"
proof (induction p)
  case Nil
  then show ?case by simp
next
  case (Cons b bs)
  show ?case
  proof (cases b)
    case False
    then show ?thesis by auto
  next
    case True
    have "(\<forall>j<length (b # bs). (b # bs) ! j) = (\<forall>j<length bs. bs ! j)"
      using True by (auto simp: less_Suc_eq_0_disj)
    with Cons.IH True show ?thesis by simp
  qed
qed

lemma length_lock_step: "length (lock_step op p) = length p"
  by (cases op) (auto simp: allocate_def free_def split: option.splits)

lemma length_lock_run: "length (lock_run ops n) = n"
proof -
  have "length (fold lock_step ops p) = length p" for p
    by (induction ops arbitrary: p) (simp_all add: length_lock_step)
  then show ?thesis by (simp add: lock_run_def newLockPool_def)
qed

lemma held_bound: "card (held p) \<le> length p"
proof -
  have "held p \<subseteq> {..<length p}" by (auto simp: held_def)
  then have "card (held p) \<le> card {..<length p}" by (intro card_mono) simp_all
  then show ?thesis by simp
qed

lemma allocate_ok:
  assumes "allocate p = Inr (i, p')"
  shows "i < length p \<and> i \<notin> held p \<and> (\<forall>j<i. j \<in> held p) \<and> p' = p[i := True] \<and>
         held p' = insert i (held p)"
proof -
  from assms have lf: "lowest_free p = Some i" and p': "p' = p[i := True]"
    by (auto simp: allocate_def split: option.splits)
  from lowest_free_Some[OF lf] have a: "i < length p" "\<not> p ! i" "\<forall>j<i. p ! j" by auto
  have "held p' = insert i (held p)"
    using a(1) by (auto simp: held_def p' nth_list_update)
  with a p' show ?thesis by (auto simp: held_def)
qed

lemma allocate_fails_iff:
  "(allocate p = Inl ErrNoFreeLocks) = (held p = {..<length p})"
proof -
  have "(allocate p = Inl ErrNoFreeLocks) = (lowest_free p = None)"
    by (auto simp: allocate_def split: option.splits)
  also have "\<dots> = (\<forall>j<length p. p ! j)" by (rule lowest_free_None)
  also have "\<dots> = (held p = {..<length p})" by (auto simp: held_def)
  finally show ?thesis .
qed

lemma allocate_total:
  "allocate p = Inl ErrNoFreeLocks \<or> (\<exists>i p'. allocate p = Inr (i, p'))"
  by (auto simp: allocate_def split: option.splits)

lemma held_free: "held (free i p) = held p - {i}"
  by (auto simp: held_def free_def nth_list_update)

lemma allocate_after_free:
  assumes "i < length p"
  shows "\<exists>j p'. allocate (free i p) = Inr (j, p') \<and> j \<le> i \<and>
           ((\<forall>k<i. k \<in> held p) \<longrightarrow> j = i)"
proof -
  have len: "length (free i p) = length p" by (simp add: free_def)
  have nh: "i \<notin> held (free i p)" by (simp add: held_free)
  have "allocate (free i p) \<noteq> Inl ErrNoFreeLocks"
    using nh assms len by (auto simp: allocate_fails_iff)
  with allocate_total obtain j p' where a: "allocate (free i p) = Inr (j, p')" by blast
  from allocate_ok[OF a] have b: "j \<notin> held (free i p)" "\<forall>k<j. k \<in> held (free i p)" by auto
  have "j \<le> i" using b(2) nh by (meson not_le_imp_less)
  moreover have "j = i" if "\<forall>k<i. k \<in> held p"
  proof (rule ccontr)
    assume "j \<noteq> i"
    with \<open>j \<le> i\<close> have "j < i" by simp
    with that have "j \<in> held p" by blast
    with \<open>j < i\<close> have "j \<in> held (free i p)" by (simp add: held_free)
    with b(1) show False by contradiction
  qed
  ultimately show ?thesis using a by blast
qed

lemma lock_run_three:
  "lock_run [Allocate, Allocate, Allocate] 3 = [True, True, True]"
  by (simp add: lock_run_def newLockPool_def allocate_def numeral_3_eq_3)

lemma lock_scenario:
  "allocate (lock_run [Allocate, Allocate, Allocate] 3) = Inl ErrNoFreeLocks \<and>
   allocate (lock_run [Allocate, Allocate, Allocate, Allocate, Free 1] 3) =
     Inr (1, [True, True, True])"
  by (simp add: lock_run_def newLockPool_def allocate_def free_def numeral_3_eq_3)

text \<open>
  Claim C8.  Let \<open>p\<close> be the pool of a manager of size \<open>n\<close> after any sequence of allocate
  and free operations.  The pool still has \<open>n\<close> indices and at most \<open>n\<close> of them are held.
  \<open>allocate\<close> fails with the pool-exhausted error exactly when all \<open>n\<close> indices are held;
  otherwise it reserves an index that was free, below which every index is held, and that
  is held afterwards.  After \<open>free i\<close> the next \<open>allocate\<close> succeeds with an index not above
  \<open>i\<close>, and with \<open>i\<close> itself when every lower index is held.  With \<open>n = 3\<close> and three
  allocations, a fourth fails; after \<open>free 1\<close> the next one returns index 1.
\<close>

theorem lock_pool_allocate_free:
  "length (lock_run ops n) = n \<and>
   card (held (lock_run ops n)) \<le> n \<and>
   (allocate (lock_run ops n) = Inl ErrNoFreeLocks) = (held (lock_run ops n) = {..<n}) \<and>
   (allocate (lock_run ops n) = Inl ErrNoFreeLocks \<or>
    (\<exists>i p'. allocate (lock_run ops n) = Inr (i, p') \<and> i < n \<and> i \<notin> held (lock_run ops n) \<and>
       (\<forall>j<i. j \<in> held (lock_run ops n)) \<and> held p' = insert i (held (lock_run ops n)))) \<and>
   (\<forall>i<n. \<exists>j p'. allocate (free i (lock_run ops n)) = Inr (j, p') \<and> j \<le> i \<and>
       ((\<forall>k<i. k \<in> held (lock_run ops n)) \<longrightarrow> j = i)) \<and>
   allocate (lock_run [Allocate, Allocate, Allocate] 3) = Inl ErrNoFreeLocks \<and>
   allocate (lock_run [Allocate, Allocate, Allocate, Allocate, Free 1] 3) =
     Inr (1, [True, True, True])"
proof -
  let ?p = "lock_run ops n"
  have len: "length ?p = n" by (rule length_lock_run)
  have c: "card (held ?p) \<le> n" using held_bound[of ?p] len by simp
  have f: "(allocate ?p = Inl ErrNoFreeLocks) = (held ?p = {..<n})"
    using allocate_fails_iff[of ?p] len by simp
  have t: "allocate ?p = Inl ErrNoFreeLocks \<or>
    (\<exists>i p'. allocate ?p = Inr (i, p') \<and> i < n \<and> i \<notin> held ?p \<and>
       (\<forall>j<i. j \<in> held ?p) \<and> held p' = insert i (held ?p))"
  proof (cases "allocate ?p = Inl ErrNoFreeLocks")
    case True
    then show ?thesis by simp
  next
    case False
    with allocate_total obtain i p' where a: "allocate ?p = Inr (i, p')" by blast
    from allocate_ok[OF a] len a show ?thesis by auto
  qed
  have r: "\<forall>i<n. \<exists>j p'. allocate (free i ?p) = Inr (j, p') \<and> j \<le> i \<and>
       ((\<forall>k<i. k \<in> held ?p) \<longrightarrow> j = i)"
    using allocate_after_free[of _ ?p] len by simp
  from len c f t r lock_scenario show ?thesis by blast
qed

theorem lock_pool_allocate_free_witness:
  "(\<exists>p'. allocate (free 1 (lock_run [Allocate, Allocate, Allocate] 3)) = Inr (1, p')) \<and>
   length (lock_run [Allocate, Free 0, Allocate] 3) = 3"
proof -
  let ?p = "lock_run [Allocate, Allocate, Allocate] 3"
  have h: "\<forall>k<1. k \<in> held ?p" by (simp add: lock_run_three held_def)
  from lock_pool_allocate_free[of "[Allocate, Allocate, Allocate]" 3]
  have "\<forall>i<3. \<exists>j p'. allocate (free i ?p) = Inr (j, p') \<and> j \<le> i \<and>
       ((\<forall>k<i. k \<in> held ?p) \<longrightarrow> j = i)" by blast
  moreover have "(1::nat) < 3" by simp
  ultimately have "\<exists>j p'. allocate (free 1 ?p) = Inr (j, p') \<and> j \<le> 1 \<and>
       ((\<forall>k<1. k \<in> held ?p) \<longrightarrow> j = 1)" by blast
  with h have a: "\<exists>p'. allocate (free 1 ?p) = Inr (1, p')" by blast
  have b: "length (lock_run [Allocate, Free 0, Allocate] 3) = 3"
    using lock_pool_allocate_free[of "[Allocate, Free 0, Allocate]" 3] by blast
  from a b show ?thesis by blast
qed

section \<open>Traces and steps\<close>

lemma emit_simps [simp]:
  "trace (emit ev s) = trace s @ [ev]"
  "rt (emit ev s) = rt s"
  "fs (emit ev s) = fs s"
  "aliveLocked (emit ev s) = aliveLocked s"
  by (simp_all add: emit_def)

lemma appendTrace_simps [simp]:
  "trace (appendTrace evs s) = trace s @ evs"
  "rt (appendTrace evs s) = rt s"
  "fs (appendTrace evs s) = fs s"
  "aliveLocked (appendTrace evs s) = aliveLocked s"
  by (simp_all add: appendTrace_def)

lemma appendTrace_append: "appendTrace ys (appendTrace xs s) = appendTrace (xs @ ys) s"
  by (simp add: appendTrace_def)

lemma emit_appendTrace: "emit ev s = appendTrace [ev] s"
  by (simp add: emit_def appendTrace_def)

lemma fold_appendTrace:
  assumes "\<And>x s. f x s = appendTrace (g x) s"
  shows "fold f xs s = appendTrace (concat (map g xs)) s"
proof (induction xs arbitrary: s)
  case Nil
  show ?case by (simp add: appendTrace_def)
next
  case (Cons x xs)
  have "fold f (x # xs) s = fold f xs (f x s)" by simp
  also have "\<dots> = appendTrace (concat (map g xs)) (f x s)" by (rule Cons.IH)
  also have "\<dots> = appendTrace (concat (map g (x # xs))) s"
    by (simp only: assms appendTrace_append) simp
  finally show ?case .
qed

lemma refresh_ctr_append: "refresh_ctr env c s = appendTrace (ctr_events env c) s"
  by (simp add: refresh_ctr_def ctr_events_def emit_appendTrace appendTrace_append
      split: option.splits)

lemma refresh_pod_append: "refresh_pod env c s = appendTrace (pod_events env c) s"
  by (simp add: refresh_pod_def pod_events_def emit_appendTrace appendTrace_append
      split: option.splits)

lemma refresh_vol_append: "refresh_vol env c s = appendTrace (vol_events env c) s"
  by (simp add: refresh_vol_def vol_events_def emit_appendTrace appendTrace_append
      split: option.splits)

lemma stop_ctr_append: "stop_ctr env c s = appendTrace (stop_events env c) s"
  by (simp add: stop_ctr_def stop_events_def emit_appendTrace appendTrace_append
      split: option.splits)


lemma recovery_emit [simp]:
  "recovery (emit ev s) = recovery s @ (if recovery_event ev then [ev] else [])"
  by (simp add: recovery_def)

lemma recovery_rt_update [simp]: "recovery (s\<lparr>rt := r\<rparr>) = recovery s"
  by (simp add: recovery_def)

lemma recovery_aliveLocked_update [simp]: "recovery (s\<lparr>aliveLocked := b\<rparr>) = recovery s"
  by (simp add: recovery_def)

lemma keepsI: "(\<And>s. f (snd (p s)) = f s) \<Longrightarrow> keeps f p"
  by (simp add: keeps_def)

lemma keepsD: "keeps f p \<Longrightarrow> f (snd (p s)) = f s"
  by (simp add: keeps_def)

lemma snd_andThen:
  "snd (andThen m k) = (case fst m of Ok a \<Rightarrow> snd (k a (snd m)) | Err e \<Rightarrow> snd m | Exit c \<Rightarrow> snd m)"
  by (cases m) (simp add: andThen_def split: result.splits)

lemma fst_andThen:
  "fst (andThen m k) = (case fst m of Ok a \<Rightarrow> fst (k a (snd m)) | Err e \<Rightarrow> Err e | Exit c \<Rightarrow> Exit c)"
  by (cases m) (simp add: andThen_def split: result.splits)

lemma keeps_andThen:
  assumes "keeps f p" and "\<And>a. keeps f (k a)"
  shows "keeps f (\<lambda>s. andThen (p s) k)"
proof (rule keepsI)
  fix s
  show "f (snd (andThen (p s) k)) = f s"
    using keepsD[OF assms(1), of s] keepsD[OF assms(2)]
    by (simp add: snd_andThen split: result.splits)
qed

lemma keeps_run_phases:
  assumes "\<And>p. p \<in> set ps \<Longrightarrow> keeps f p"
  shows "keeps f (run_phases ps)"
  using assms
proof (induction ps)
  case Nil
  show ?case by (simp add: keeps_def)
next
  case (Cons p ps)
  have a: "keeps f p" using Cons.prems by simp
  have b: "keeps f (run_phases ps)" using Cons by simp
  have "keeps f (\<lambda>s. andThen (p s) (\<lambda>_. run_phases ps))"
    by (rule keeps_andThen[OF a]) (rule b)
  then show ?case by (simp add: keeps_def)
qed

lemma seen_simps [simp]:
  "seen (s\<lparr>rt := r\<rparr>) = seen s"
  "seen (s\<lparr>aliveLocked := b\<rparr>) = seen s"
  "\<not> recovery_event ev \<Longrightarrow> seen (emit ev s) = seen s"
  by (simp_all add: seen_def)

lemma keeps_mkdir: "keeps f (mkdir_unless_exists env p msg)"
  by (simp add: keeps_def mkdir_unless_exists_def split: option.splits)









lemma keeps_setup_dirs: "keeps f (setup_dirs env)"
proof -
  have "f (snd (setup_dirs env s)) = f s" for s
    using keepsD[OF keeps_mkdir[of f env]]
    by (simp add: setup_dirs_def snd_andThen split: result.splits)
  then show ?thesis by (simp add: keeps_def)
qed















section \<open>The refresh pass\<close>

lemma refresh_pass:
  assumes "state_Refresh env = None" and "AllContainers env = Inr ctrs"
    and "AllPods env = Inr pods" and "AllVolumes env = Inr vols"
  shows "refresh env alivePath s =
    (case os_OpenFile_fault env alivePath of
       Some err \<Rightarrow>
         (Err (Wrapf err ''error creating runtime status file %s'' [alivePath]),
          appendTrace ([StateRefresh] @ refresh_loops env ctrs pods vols @ [CreateFile alivePath]) s)
     | None \<Rightarrow>
         (Ok (),
          appendTrace ([StateRefresh] @ refresh_loops env ctrs pods vols @
                       [CreateFile alivePath, SystemEvent ''refresh''])
            (s\<lparr>fs := (fs s)(alivePath := Present)\<rparr>)))"
  using assms
  by (simp add: refresh_def Let_def os_OpenFile_create_def
      fold_appendTrace[where f="refresh_ctr env", OF refresh_ctr_append]
      fold_appendTrace[where f="refresh_pod env", OF refresh_pod_append]
      fold_appendTrace[where f="refresh_vol env", OF refresh_vol_append]
      emit_appendTrace appendTrace_append refresh_loops_def
      split: option.splits)

lemma refresh_abort:
  assumes "store_listing_fails env"
  shows "\<exists>e. refresh env alivePath s = (Err e, appendTrace [StateRefresh] s)"
  using assms
  by (auto simp add: refresh_def Let_def store_listing_fails_def emit_appendTrace isl_def
      split: option.splits sum.splits)

lemma recovery_appendTrace [simp]:
  "recovery (appendTrace evs s) = recovery s @ filter recovery_event evs"
  by (simp add: recovery_def)

lemma recovery_fs_update [simp]: "recovery (s\<lparr>fs := f\<rparr>) = recovery s"
  by (simp add: recovery_def)





lemma listing_ok:
  assumes "\<not> store_listing_fails env"
  obtains ctrs pods vols where "state_Refresh env = None" "AllContainers env = Inr ctrs"
    "AllPods env = Inr pods" "AllVolumes env = Inr vols"
proof -
  from assms have "state_Refresh env = None" "\<not> isl (AllContainers env)"
    "\<not> isl (AllPods env)" "\<not> isl (AllVolumes env)"
    by (simp_all add: store_listing_fails_def)
  then show ?thesis using that by (auto simp: isl_def) (metis sum.exhaust_sel)
qed






lemma refreshIfNeeded_False [simp]: "refreshIfNeeded env False alive s = (Ok (), s)"
  by (simp add: refreshIfNeeded_def)




lemma trace_refresh_pass:
  assumes "state_Refresh env = None" and "AllContainers env = Inr ctrs"
    and "AllPods env = Inr pods" and "AllVolumes env = Inr vols"
  shows "trace (snd (refresh env alivePath s)) =
           trace s @ [StateRefresh] @ concat (map (ctr_events env) ctrs) @
           concat (map (pod_events env) pods) @ concat (map (vol_events env) vols) @
           [CreateFile alivePath] @
           (if os_OpenFile_fault env alivePath = None then [SystemEvent ''refresh''] else [])"
  by (simp add: refresh_pass[OF assms] refresh_loops_def split: option.splits)

lemma result_refresh_pass:
  assumes "\<not> store_listing_fails env"
  shows "fst (refresh env alivePath s) =
           (case os_OpenFile_fault env alivePath of
              None \<Rightarrow> Ok ()
            | Some err \<Rightarrow> Err (Wrapf err ''error creating runtime status file %s'' [alivePath])) \<and>
         (os_OpenFile_fault env alivePath = None \<longrightarrow>
            fs (snd (refresh env alivePath s)) alivePath = Present)"
proof -
  from assms obtain ctrs pods vols where l: "state_Refresh env = None"
    "AllContainers env = Inr ctrs" "AllPods env = Inr pods" "AllVolumes env = Inr vols"
    by (rule listing_ok)
  show ?thesis by (simp add: refresh_pass[OF l] split: option.splits)
qed

text \<open>
  Claim C6.  When the state is cleared and the three lists are read without error, the
  refresh pass calls the refresh of every container, then of every pod, then of every
  volume, whatever these calls return; each failure leaves only a log entry behind the
  call.  The status file is created after the three loops, and the result of \<open>refresh\<close>
  is that of the creation alone.  When clearing the state or reading one of the lists
  fails, \<open>refresh\<close> returns an error before any entity is touched and the file system is
  as it was; these are the only failures that stop the pass.
\<close>

theorem refresh_survives_entity_failures:
  "(\<not> store_listing_fails env \<longrightarrow>
      (\<exists>ctrs pods vols.
         AllContainers env = Inr ctrs \<and> AllPods env = Inr pods \<and> AllVolumes env = Inr vols \<and>
         trace (snd (refresh env alivePath s)) =
           trace s @ [StateRefresh] @ concat (map (ctr_events env) ctrs) @
           concat (map (pod_events env) pods) @ concat (map (vol_events env) vols) @
           [CreateFile alivePath] @
           (if os_OpenFile_fault env alivePath = None then [SystemEvent ''refresh''] else [])) \<and>
      fst (refresh env alivePath s) =
        (case os_OpenFile_fault env alivePath of
           None \<Rightarrow> Ok ()
         | Some err \<Rightarrow> Err (Wrapf err ''error creating runtime status file %s'' [alivePath])) \<and>
      (os_OpenFile_fault env alivePath = None \<longrightarrow>
         fs (snd (refresh env alivePath s)) alivePath = Present)) \<and>
   (store_listing_fails env \<longrightarrow>
      (\<exists>e. fst (refresh env alivePath s) = Err e) \<and>
      trace (snd (refresh env alivePath s)) = trace s @ [StateRefresh] \<and>
      fs (snd (refresh env alivePath s)) = fs s)"
proof (cases "store_listing_fails env")
  case True
  from refresh_abort[OF True, of alivePath s] obtain e
    where "refresh env alivePath s = (Err e, appendTrace [StateRefresh] s)" by blast
  with True show ?thesis by simp
next
  case False
  then obtain ctrs pods vols where l: "state_Refresh env = None"
    "AllContainers env = Inr ctrs" "AllPods env = Inr pods" "AllVolumes env = Inr vols"
    by (rule listing_ok)
  from trace_refresh_pass[OF l, of alivePath s] l(2-4) result_refresh_pass[OF False, of alivePath s]
    False
  show ?thesis by blast
qed

theorem refresh_survives_entity_failures_witness:
  "fst (refresh host_env_ctr_fails ''/run/libpod/alive'' host_start) = Ok () \<and>
   trace (snd (refresh host_env_ctr_fails ''/run/libpod/alive'' host_start)) =
     [StateRefresh, CtrRefresh (Container ''c1''),
      Errorf_log ''Error refreshing container %s: %v'' [S ''c1'', E (Foreign 7)],
      PodRefresh (Pod ''p1''), VolRefresh (Volume ''v1''),
      CreateFile ''/run/libpod/alive'', SystemEvent ''refresh''] \<and>
   fs (snd (refresh host_env_ctr_fails ''/run/libpod/alive'' host_start)) ''/run/libpod/alive'' =
     Present"
proof -
  let ?r = "refresh host_env_ctr_fails ''/run/libpod/alive'' host_start"
  have h: "\<not> store_listing_fails host_env_ctr_fails" by code_simp
  have f: "os_OpenFile_fault host_env_ctr_fails ''/run/libpod/alive'' = None" by code_simp
  have c: "AllContainers host_env_ctr_fails = Inr [Container ''c1'']" by code_simp
  have p: "AllPods host_env_ctr_fails = Inr [Pod ''p1'']" by code_simp
  have v: "AllVolumes host_env_ctr_fails = Inr [Volume ''v1'']" by code_simp
  have t: "trace host_start = []" by code_simp
  have ce: "ctr_events host_env_ctr_fails (Container ''c1'') =
     [CtrRefresh (Container ''c1''),
      Errorf_log ''Error refreshing container %s: %v'' [S ''c1'', E (Foreign 7)]]" by code_simp
  have pe: "pod_events host_env_ctr_fails (Pod ''p1'') = [PodRefresh (Pod ''p1'')]" by code_simp
  have ve: "vol_events host_env_ctr_fails (Volume ''v1'') = [VolRefresh (Volume ''v1'')]"
    by code_simp
  from refresh_survives_entity_failures[of host_env_ctr_fails "''/run/libpod/alive''" host_start] h
  have a: "\<exists>ctrs pods vols.
         AllContainers host_env_ctr_fails = Inr ctrs \<and> AllPods host_env_ctr_fails = Inr pods \<and>
         AllVolumes host_env_ctr_fails = Inr vols \<and>
         trace (snd ?r) =
           trace host_start @ [StateRefresh] @ concat (map (ctr_events host_env_ctr_fails) ctrs) @
           concat (map (pod_events host_env_ctr_fails) pods) @
           concat (map (vol_events host_env_ctr_fails) vols) @
           [CreateFile ''/run/libpod/alive''] @
           (if os_OpenFile_fault host_env_ctr_fails ''/run/libpod/alive'' = None
            then [SystemEvent ''refresh''] else [])"
    and b: "fst ?r =
        (case os_OpenFile_fault host_env_ctr_fails ''/run/libpod/alive'' of
           None \<Rightarrow> Ok ()
         | Some err \<Rightarrow> Err (Wrapf err ''error creating runtime status file %s'' [''/run/libpod/alive'']))"
    and d: "os_OpenFile_fault host_env_ctr_fails ''/run/libpod/alive'' = None \<longrightarrow>
         fs (snd ?r) ''/run/libpod/alive'' = Present"
    by blast+
  from a c p v have "trace (snd ?r) =
     [StateRefresh, CtrRefresh (Container ''c1''),
      Errorf_log ''Error refreshing container %s: %v'' [S ''c1'', E (Foreign 7)],
      PodRefresh (Pod ''p1''), VolRefresh (Volume ''v1''),
      CreateFile ''/run/libpod/alive'', SystemEvent ''refresh'']"
    by (auto simp: t f ce pe ve)
  moreover from b f have "fst ?r = Ok ()" by simp
  moreover from d f have "fs (snd ?r) ''/run/libpod/alive'' = Present" by simp
  ultimately show ?thesis by blast
qed

section \<open>The restart check of the bootstrap\<close>

lemma run_phases_step:
  "run_phases (p # ps) s =
     (case fst (p s) of
        Ok u \<Rightarrow> run_phases ps (snd (p s))
      | Err e \<Rightarrow> (Err e, snd (p s))
      | Exit c \<Rightarrow> (Exit c, snd (p s)))"
  by (cases "p s") (simp add: andThen_def split: result.splits)

lemma run_phases_Ok:
  assumes "fst (run_phases (p # ps) s) = Ok ()"
  shows "fst (p s) = Ok () \<and> run_phases (p # ps) s = run_phases ps (snd (p s))"
  using assms by (simp add: run_phases_step del: run_phases.simps(2) split: result.splits)




lemma makeRuntime_locked_afterCheck:
  "makeRuntime_locked env alive s =
     andThen (checkAlive env alive s) (\<lambda>d. afterCheck env d alive)"
  by (simp add: makeRuntime_locked_def afterCheck_def)




lemma seen_unlockAlive [simp]: "seen (unlockAlive s) = seen s"
  by (simp add: unlockAlive_def)





section \<open>Shutdown and the stopped runtime\<close>

lemma stopAll_append: "stopAll env s = appendTrace (stopAll_events env) s"
  by (simp add: stopAll_def stopAll_events_def emit_appendTrace
      fold_appendTrace[where f="stop_ctr env", OF stop_ctr_append] split: sum.splits)

lemma shutdownStore_eq:
  "shutdownStore env force s = (store_error env force s, appendTrace (store_events force s) s)"
  by (simp add: shutdownStore_def store_error_def store_events_def emit_appendTrace
      appendTrace_def split: option.splits)

lemma closeState_eq:
  "closeState env le s =
     (case state_Close env of Some err \<Rightarrow> Some err | None \<Rightarrow> le,
      appendTrace (close_events env le) s)"
  by (simp add: closeState_def close_events_def Let_def emit_appendTrace appendTrace_append
      split: option.splits)

lemma store_error_cong [simp]:
  "store_error env force (appendTrace evs s) = store_error env force s"
  "store_events force (appendTrace evs s) = store_events force s"
  by (simp_all add: store_error_def store_events_def)

lemma store_error_valid [simp]:
  "store_error env force (s\<lparr>rt := (rt s)\<lparr>valid := b\<rparr>\<rparr>) = store_error env force s"
  "store_events force (s\<lparr>rt := (rt s)\<lparr>valid := b\<rparr>\<rparr>) = store_events force s"
  by (simp_all add: store_error_def store_events_def)

lemma Shutdown_valid:
  assumes "valid (rt s)"
  shows "Shutdown env force s =
    (case state_Close env of Some err \<Rightarrow> Some err | None \<Rightarrow> store_error env force s,
     appendTrace ((if force then stopAll_events env else []) @ store_events force s @
                  close_events env (store_error env force s))
       (s\<lparr>rt := (rt s)\<lparr>valid := False\<rparr>\<rparr>))"
  using assms
  by (cases "state_Close env"; cases force)
     (simp_all add: Shutdown_def Let_def stopAll_append shutdownStore_eq closeState_eq
        appendTrace_append)

lemma Shutdown_stopped: "\<not> valid (rt s) \<Longrightarrow> Shutdown env force s = (Some ErrRuntimeStopped, s)"
  by (simp add: Shutdown_def)

lemma Shutdown_invalidates: "\<not> valid (rt (snd (Shutdown env force s)))"
  by (cases "valid (rt s)") (simp_all add: Shutdown_valid Shutdown_stopped)




lemma GetConfig_stopped: "\<not> valid (rt s) \<Longrightarrow> GetConfig env s = Inl ErrRuntimeStopped"
  by (simp add: GetConfig_def)

lemma perform_stopped:
  "\<not> valid (rt s) \<Longrightarrow> perform env c s = (stopped_reply c, s)"
  by (cases c) (simp_all add: perform_def GetConfig_stopped Shutdown_stopped DeferredShutdown_def)

lemma session_stopped:
  "\<not> valid (rt s) \<Longrightarrow> session calls s = (map (\<lambda>ec. stopped_reply (snd ec)) calls, s)"
  by (induction calls) (simp_all add: perform_stopped)

text \<open>
  Claim C5.  After \<open>Shutdown\<close> has run on a runtime, the runtime is invalid.  Whatever calls
  follow, in whatever environment, \<open>GetConfig\<close> and \<open>Shutdown\<close> answer with
  \<open>ErrRuntimeStopped\<close>, and the system after the calls is the system as \<open>Shutdown\<close> left it:
  nothing was performed, and the validity flag is false after every prefix of the calls.
\<close>

theorem stopped_runtime_fails_fast:
  "\<not> valid (rt (snd (Shutdown env force s))) \<and>
   session calls (snd (Shutdown env force s)) =
     (map (\<lambda>ec. stopped_reply (snd ec)) calls, snd (Shutdown env force s)) \<and>
   (\<forall>k. \<not> valid (rt (snd (session (take k calls) (snd (Shutdown env force s))))))"
  using Shutdown_invalidates[of env force s] session_stopped[of "snd (Shutdown env force s)"]
  by simp

theorem stopped_runtime_fails_fast_witness:
  "session [(host_env, CallGetConfig), (host_env_in_use, CallShutdown True),
            (host_env, CallDeferredShutdown False), (host_env, CallGetConfig)]
     (snd (Shutdown host_env False host_running)) =
   ([GotConfig (Inl ErrRuntimeStopped), ShutdownReturned (Some ErrRuntimeStopped), NoReply,
     GotConfig (Inl ErrRuntimeStopped)],
    snd (Shutdown host_env False host_running))"
  using stopped_runtime_fails_fast[of host_env False host_running
      "[(host_env, CallGetConfig), (host_env_in_use, CallShutdown True),
        (host_env, CallDeferredShutdown False), (host_env, CallGetConfig)]"]
  by simp

section \<open>The lock manager and the state in the bootstrap\<close>

lemma settings_simps [simp]:
  "settings (s\<lparr>aliveLocked := b\<rparr>) = settings s"
  "settings (emit ev s) = settings s"
  "settings (s\<lparr>fs := f\<rparr>) = settings s"
  "settings (appendTrace evs s) = settings s"
  by (simp_all add: settings_def)

lemma keeps_settings_configureStore: "keeps settings (configureStore env)"
  by (simp add: keeps_def settings_def configureStore_def Let_def split: sum.splits option.splits)

lemma keeps_settings_setup_conmon: "keeps settings (setup_conmon env)"
  by (simp add: keeps_def settings_def setup_conmon_def split: sum.splits)

lemma keeps_settings_setup_staticDir: "keeps settings (setup_staticDir env)"
  using keeps_mkdir[of settings env] by (simp add: keeps_def setup_staticDir_def)

lemma keeps_settings_setup_state: "keeps settings (setup_state env)"
  by (simp add: keeps_def settings_def setup_state_def Let_def
      split: RuntimeStateStore.splits option.splits)

lemma keeps_settings_setup_dbConfig: "keeps settings (setup_dbConfig env)"
  by (simp add: keeps_def settings_def setup_dbConfig_def split: sum.splits)

lemma keeps_settings_setup_validate: "keeps settings (setup_validate env)"
  by (simp add: keeps_def setup_validate_def split: option.splits)

lemma keeps_settings_setup_store: "keeps settings (setup_store env)"
  using keeps_settings_configureStore[of env] by (simp add: keeps_def setup_store_def)

lemma keeps_settings_setup_eventer: "keeps settings (setup_eventer env)"
  by (simp add: keeps_def settings_def setup_eventer_def split: option.splits)

lemma keeps_settings_oci_legacy: "keeps settings (oci_legacy env)"
  by (simp add: keeps_def settings_def oci_legacy_def Let_def split: option.splits sum.splits)

lemma settings_oci_init_one: "settings (oci_init_one env entry s) = settings s"
  by (simp add: oci_init_one_def settings_def Let_def split: sum.splits)

lemma keeps_settings_oci_remaining: "keeps settings (oci_remaining env)"
proof -
  have "settings (fold (oci_init_one env) xs s) = settings s" for xs s
    by (induction xs arbitrary: s) (simp_all add: settings_oci_init_one)
  then show ?thesis by (simp add: keeps_def oci_remaining_def)
qed

lemma keeps_settings_oci_default: "keeps settings (oci_default env)"
  by (simp add: keeps_def settings_def oci_default_def Let_def split: option.splits sum.splits)

lemma keeps_settings_oci_check: "keeps settings oci_check"
  by (simp add: keeps_def oci_check_def)

lemma keeps_settings_setup_ociRuntimes: "keeps settings (setup_ociRuntimes env)"
  unfolding setup_ociRuntimes_def
  by (rule keeps_run_phases)
     (auto simp: keeps_settings_oci_legacy keeps_settings_oci_remaining
        keeps_settings_oci_default keeps_settings_oci_check)

lemma keeps_settings_setup_tmpDir: "keeps settings (setup_tmpDir env)"
  using keeps_mkdir[of settings env] by (simp add: keeps_def setup_tmpDir_def)

lemma keeps_settings_setup_cni: "keeps settings (setup_cni env)"
  by (simp add: keeps_def settings_def setup_cni_def split: option.splits)

lemma keeps_settings_setup: "keeps settings (makeRuntime_setup env)"
  unfolding makeRuntime_setup_def
  by (rule keeps_run_phases)
     (auto simp: keeps_settings_setup_conmon keeps_settings_setup_staticDir
        keeps_settings_setup_state keeps_settings_setup_dbConfig keeps_settings_setup_validate
        keeps_settings_setup_store keeps_settings_setup_eventer keeps_setup_dirs
        keeps_settings_setup_ociRuntimes keeps_settings_setup_tmpDir keeps_settings_setup_cni)

lemma keeps_rt_becomeRoot: "keeps rt (becomeRoot env)"
  by (simp add: keeps_def becomeRoot_def unlockAlive_def Let_def split: sum.splits prod.splits)

lemma rt_checkAlive: "rt (snd (checkAlive env alive s)) = rt s"
  using keepsD[OF keeps_rt_becomeRoot, of env s]
  by (simp add: checkAlive_def snd_andThen split: option.splits result.splits)

lemma getLockManager_rt:
  "rt s1 = rt s \<Longrightarrow> fst (getLockManager env s1) = fst (getLockManager env s)"
  by (simp add: getLockManager_def Let_def split: option.splits)

lemma rt_getLockManager: "rt (snd (getLockManager env s)) = rt s"
  by (simp add: getLockManager_def Let_def split: option.splits)

lemma setLockManager_Err:
  assumes "fst (getLockManager env s) = Err e"
  shows "fst (setLockManager env s) = Err e \<and>
         settings (snd (setLockManager env s)) = settings s"
  using assms rt_getLockManager[of env s]
  by (cases "getLockManager env s") (simp add: setLockManager_def settings_def)

lemma afterCheck_lock_error:
  assumes "fst (getLockManager env s) = Err e"
  shows "fst (afterCheck env d alive s) = Err e \<and>
         settings (snd (afterCheck env d alive s)) = settings s"
  using setLockManager_Err[OF assms]
  by (simp add: afterCheck_def run_phases_step del: run_phases.simps(2))

lemma settings_checkAlive: "settings (snd (checkAlive env alive s)) = settings s"
  by (simp add: settings_def rt_checkAlive)

lemma locked_lock_error:
  assumes "fst (getLockManager env s) = Err e"
  shows "fst (makeRuntime_locked env alive s) \<noteq> Ok () \<and>
         settings (snd (makeRuntime_locked env alive s)) = settings s \<and>
         (is_Ok (fst (checkAlive env alive s)) \<longrightarrow> fst (makeRuntime_locked env alive s) = Err e)"
proof (cases "fst (checkAlive env alive s)")
  case (Ok d)
  let ?sA = "snd (checkAlive env alive s)"
  have "fst (getLockManager env ?sA) = Err e"
    using getLockManager_rt[of ?sA s env] rt_checkAlive[of env alive s] assms by simp
  from afterCheck_lock_error[OF this, of d alive] settings_checkAlive[of env alive s] Ok
  show ?thesis
    by (simp add: makeRuntime_locked_afterCheck fst_andThen snd_andThen)
next
  case (Err x)
  then show ?thesis using settings_checkAlive[of env alive s]
    by (simp add: makeRuntime_locked_afterCheck fst_andThen snd_andThen is_Ok_def)
next
  case (Exit c)
  then show ?thesis using settings_checkAlive[of env alive s]
    by (simp add: makeRuntime_locked_afterCheck fst_andThen snd_andThen is_Ok_def)
qed

lemma settings_unlockAlive [simp]: "settings (unlockAlive s) = settings s"
  by (simp add: unlockAlive_def)

lemma reboot_lock_error:
  assumes "fst (getLockManager env s) = Err e"
  shows "fst (makeRuntime_reboot env s) \<noteq> Ok () \<and>
         settings (snd (makeRuntime_reboot env s)) = settings s \<and>
         (GetLockfile env (filepath_Join (TmpDir (config (rt s))) ''alive.lck'') = None \<and>
          is_Ok (fst (checkAlive env (aliveFile s) (emit LockAlive (s\<lparr>aliveLocked := True\<rparr>)))) \<longrightarrow>
            fst (makeRuntime_reboot env s) = Err e)"
proof (cases "GetLockfile env (filepath_Join (TmpDir (config (rt s))) ''alive.lck'')")
  case (Some err)
  then show ?thesis by (simp add: makeRuntime_reboot_def)
next
  case None
  let ?sL = "emit LockAlive (s\<lparr>aliveLocked := True\<rparr>)"
  have g: "fst (getLockManager env ?sL) = Err e"
    using getLockManager_rt[of ?sL s env] assms by simp
  obtain x s1 where m: "makeRuntime_locked env (aliveFile s) ?sL = (x, s1)"
    by (cases "makeRuntime_locked env (aliveFile s) ?sL")
  from locked_lock_error[OF g, of "aliveFile s"] m
  have a: "x \<noteq> Ok ()" "settings s1 = settings s"
    "is_Ok (fst (checkAlive env (aliveFile s) ?sL)) \<longrightarrow> x = Err e" by simp_all
  show ?thesis using None m a
    by (cases x) (auto simp add: makeRuntime_reboot_def Let_def)
qed

lemma getLockManager_unknown:
  assumes "LockType (config (rt s)) \<notin> {''file'', ''shm'', ''''}"
  shows "getLockManager env s =
    (Err (Wrapf ErrInvalidArg ''unknown lock type %s'' [LockType (config (rt s))]), s)"
  using assms by (simp add: getLockManager_def Let_def)

lemma setup_state_unknown:
  assumes "StateType (config (rt s)) = OtherStateStore k"
  shows "setup_state env s =
    (Err (Wrapf ErrInvalidArg ''unrecognized state type passed (%v)'' [itoa k]), s)"
  using assms by (simp add: setup_state_def)

lemma makeRuntime_cases:
  "(\<exists>u. fst (makeRuntime_setup env s) = Ok u \<and>
      makeRuntime env s = makeRuntime_reboot env (snd (makeRuntime_setup env s))) \<or>
   fst (makeRuntime_setup env s) \<noteq> Ok () \<and> makeRuntime env s = makeRuntime_setup env s"
  by (cases "makeRuntime_setup env s"; cases "fst (makeRuntime_setup env s)")
     (auto simp: makeRuntime_def andThen_def)

lemma makeRuntime_lock_error:
  assumes "\<And>s1. settings s1 = settings s \<Longrightarrow> fst (getLockManager env s1) = Err (e s1)"
  shows "fst (makeRuntime env s) \<noteq> Ok () \<and> settings (snd (makeRuntime env s)) = settings s \<and>
    (reaches_lock_manager env s \<longrightarrow>
       fst (makeRuntime env s) = Err (e (snd (makeRuntime_setup env s))))"
proof -
  let ?s1 = "snd (makeRuntime_setup env s)"
  have k: "settings ?s1 = settings s" by (rule keepsD[OF keeps_settings_setup])
  from makeRuntime_cases[of env s] show ?thesis
  proof
    assume "\<exists>u. fst (makeRuntime_setup env s) = Ok u \<and>
      makeRuntime env s = makeRuntime_reboot env ?s1"
    then have ok: "fst (makeRuntime_setup env s) = Ok ()"
      and m: "makeRuntime env s = makeRuntime_reboot env ?s1" by auto
    have r: "reaches_lock_manager env s =
      (GetLockfile env (filepath_Join (TmpDir (config (rt ?s1))) ''alive.lck'') = None \<and>
       is_Ok (fst (checkAlive env (aliveFile ?s1) (emit LockAlive (?s1\<lparr>aliveLocked := True\<rparr>)))))"
      using ok by (cases "makeRuntime_setup env s") (simp add: reaches_lock_manager_def)
    from reboot_lock_error[OF assms[OF k]] k show ?thesis by (simp add: m r)
  next
    assume a: "fst (makeRuntime_setup env s) \<noteq> Ok () \<and> makeRuntime env s = makeRuntime_setup env s"
    then have "\<not> reaches_lock_manager env s"
      by (cases "makeRuntime_setup env s"; cases "fst (makeRuntime_setup env s)")
         (auto simp: reaches_lock_manager_def)
    with a k show ?thesis by simp
  qed
qed

lemma setup_state_error:
  assumes "StateType (config (rt s)) = OtherStateStore k"
  shows "fst (makeRuntime_setup env s) \<noteq> Ok () \<and>
    (reaches_state env s \<longrightarrow>
       fst (makeRuntime_setup env s) =
         Err (Wrapf ErrInvalidArg ''unrecognized state type passed (%v)'' [itoa k]))"
proof -
  let ?s1 = "snd (setup_conmon env s)"
  let ?s2 = "snd (setup_staticDir env ?s1)"
  have k1: "settings ?s1 = settings s" by (rule keepsD[OF keeps_settings_setup_conmon])
  have k2: "settings ?s2 = settings s"
    using keepsD[OF keeps_settings_setup_staticDir, of env ?s1] k1 by simp
  have st: "StateType (config (rt ?s2)) = OtherStateStore k"
    using k2 assms by (simp add: settings_def)
  note e = setup_state_unknown[OF st, of env]
  show ?thesis
  proof (cases "fst (setup_conmon env s)")
    case (Ok u)
    show ?thesis
    proof (cases "fst (setup_staticDir env ?s1)")
      case ok2: (Ok v)
      show ?thesis using Ok ok2 e
        by (simp add: makeRuntime_setup_def reaches_state_def is_Ok_def run_phases_step
            del: run_phases.simps(2))
    next
      case (Err x)
      then show ?thesis using Ok
        by (simp add: makeRuntime_setup_def reaches_state_def is_Ok_def run_phases_step
            del: run_phases.simps(2))
    next
      case (Exit x)
      then show ?thesis using Ok
        by (simp add: makeRuntime_setup_def reaches_state_def is_Ok_def run_phases_step
            del: run_phases.simps(2))
    qed
  next
    case (Err x)
    then show ?thesis
      by (simp add: makeRuntime_setup_def reaches_state_def is_Ok_def run_phases_step
          del: run_phases.simps(2))
  next
    case (Exit x)
    then show ?thesis
      by (simp add: makeRuntime_setup_def reaches_state_def is_Ok_def run_phases_step
          del: run_phases.simps(2))
  qed
qed

lemma makeRuntime_state_error:
  assumes "StateType (config (rt s)) = OtherStateStore k"
  shows "fst (makeRuntime env s) \<noteq> Ok () \<and> settings (snd (makeRuntime env s)) = settings s \<and>
    (reaches_state env s \<longrightarrow>
       fst (makeRuntime env s) =
         Err (Wrapf ErrInvalidArg ''unrecognized state type passed (%v)'' [itoa k]))"
proof -
  have k: "settings (snd (makeRuntime_setup env s)) = settings s"
    by (rule keepsD[OF keeps_settings_setup])
  from setup_state_error[OF assms, of env] makeRuntime_cases[of env s] k
  show ?thesis by auto
qed

text \<open>
  Claim C7.  With a lock type that is none of \<open>file\<close>, \<open>shm\<close> and the empty string,
  \<open>getLockManager\<close> returns an error whose cause is \<open>ErrInvalidArg\<close>; the bootstrap never
  succeeds and leaves the validity flag as it was, and when it reaches the lock manager
  this error is its result.  With a state type outside the three named ones the choice of
  the state returns an error whose cause is \<open>ErrInvalidArg\<close>; the bootstrap never succeeds
  and leaves the validity flag as it was, and when it reaches the choice of the state this
  error is its result.
\<close>

theorem unknown_backend_is_invalid_argument:
  "(LockType (config (rt s)) \<notin> {''file'', ''shm'', ''''} \<longrightarrow>
      getLockManager env s =
        (Err (Wrapf ErrInvalidArg ''unknown lock type %s'' [LockType (config (rt s))]), s) \<and>
      fst (makeRuntime env s) \<noteq> Ok () \<and>
      valid (rt (snd (makeRuntime env s))) = valid (rt s) \<and>
      (reaches_lock_manager env s \<longrightarrow>
         (\<exists>e. fst (makeRuntime env s) = Err e \<and> Cause e = ErrInvalidArg))) \<and>
   (\<forall>k. StateType (config (rt s)) = OtherStateStore k \<longrightarrow>
      setup_state env s =
        (Err (Wrapf ErrInvalidArg ''unrecognized state type passed (%v)'' [itoa k]), s) \<and>
      fst (makeRuntime env s) \<noteq> Ok () \<and>
      valid (rt (snd (makeRuntime env s))) = valid (rt s) \<and>
      (reaches_state env s \<longrightarrow>
         (\<exists>e. fst (makeRuntime env s) = Err e \<and> Cause e = ErrInvalidArg)))"
proof -
  have a: "getLockManager env s =
        (Err (Wrapf ErrInvalidArg ''unknown lock type %s'' [LockType (config (rt s))]), s) \<and>
      fst (makeRuntime env s) \<noteq> Ok () \<and>
      valid (rt (snd (makeRuntime env s))) = valid (rt s) \<and>
      (reaches_lock_manager env s \<longrightarrow>
         (\<exists>e. fst (makeRuntime env s) = Err e \<and> Cause e = ErrInvalidArg))"
    if h: "LockType (config (rt s)) \<notin> {''file'', ''shm'', ''''}"
  proof -
    define e :: "Sys \<Rightarrow> error" where
      "e = (\<lambda>s1. Wrapf ErrInvalidArg ''unknown lock type %s'' [LockType (config (rt s1))])"
    have "fst (getLockManager env s1) = Err (e s1)" if "settings s1 = settings s" for s1
    proof -
      from that h have "LockType (config (rt s1)) \<notin> {''file'', ''shm'', ''''}"
        by (simp add: settings_def)
      from getLockManager_unknown[OF this, of env] show ?thesis by (simp add: e_def)
    qed
    from makeRuntime_lock_error[of s env e, OF this]
    have m: "fst (makeRuntime env s) \<noteq> Ok ()"
      "settings (snd (makeRuntime env s)) = settings s"
      "reaches_lock_manager env s \<longrightarrow>
         fst (makeRuntime env s) = Err (e (snd (makeRuntime_setup env s)))"
      by simp_all
    have c: "Cause (e x) = ErrInvalidArg" for x by (simp add: e_def)
    from m c getLockManager_unknown[OF h, of env] show ?thesis
      by (auto simp: settings_def)
  qed
  have b: "setup_state env s =
        (Err (Wrapf ErrInvalidArg ''unrecognized state type passed (%v)'' [itoa k]), s) \<and>
      fst (makeRuntime env s) \<noteq> Ok () \<and>
      valid (rt (snd (makeRuntime env s))) = valid (rt s) \<and>
      (reaches_state env s \<longrightarrow>
         (\<exists>e. fst (makeRuntime env s) = Err e \<and> Cause e = ErrInvalidArg))"
    if h: "StateType (config (rt s)) = OtherStateStore k" for k
    using makeRuntime_state_error[OF h, of env] setup_state_unknown[OF h, of env]
    by (auto simp: settings_def)
  from a b show ?thesis by blast
qed

theorem unknown_backend_is_invalid_argument_witness:
  "(\<exists>e. fst (makeRuntime host_env bad_lock_start) = Err e \<and> Cause e = ErrInvalidArg) \<and>
   \<not> valid (rt (snd (makeRuntime host_env bad_lock_start))) \<and>
   (\<exists>e. fst (makeRuntime host_env bad_state_start) = Err e \<and> Cause e = ErrInvalidArg) \<and>
   \<not> valid (rt (snd (makeRuntime host_env bad_state_start)))"
proof -
  have l: "LockType (config (rt bad_lock_start)) \<notin> {''file'', ''shm'', ''''}" by code_simp
  have rl: "reaches_lock_manager host_env bad_lock_start" by code_simp
  have vl: "\<not> valid (rt bad_lock_start)" by code_simp
  have st: "StateType (config (rt bad_state_start)) = OtherStateStore 7" by code_simp
  have rs: "reaches_state host_env bad_state_start" by code_simp
  have vs: "\<not> valid (rt bad_state_start)" by code_simp
  from unknown_backend_is_invalid_argument[of bad_lock_start host_env] l rl vl
  have a: "(\<exists>e. fst (makeRuntime host_env bad_lock_start) = Err e \<and> Cause e = ErrInvalidArg) \<and>
   \<not> valid (rt (snd (makeRuntime host_env bad_lock_start)))" by blast
  from unknown_backend_is_invalid_argument[of bad_state_start host_env] st rs vs
  have b: "(\<exists>e. fst (makeRuntime host_env bad_state_start) = Err e \<and> Cause e = ErrInvalidArg) \<and>
   \<not> valid (rt (snd (makeRuntime host_env bad_state_start)))" by blast
  from a b show ?thesis by blast
qed

lemma getLockManager_file:
  assumes "LockType (config (rt s)) = ''file''"
  shows "getLockManager env s =
    (let lockPath = filepath_Join (TmpDir (config (rt s))) ''locks'' in
     case OpenFileLockManager env lockPath of
       None \<Rightarrow> (Ok (FileLockManager lockPath), emit (OpenFileLM lockPath) s)
     | Some err \<Rightarrow>
         if Cause err = ENOENT
         then (case NewFileLockManager env lockPath of
                 None \<Rightarrow> Ok (FileLockManager lockPath)
               | Some err2 \<Rightarrow> Err (Wrapf err2 ''failed to get new file lock manager'' []),
               emit (NewFileLM lockPath) (emit (OpenFileLM lockPath) s))
         else (Err err, emit (OpenFileLM lockPath) s))"
  using assms
  by (simp add: getLockManager_def Let_def os_IsNotExist_def split: option.splits)

lemma getLockManager_shm:
  assumes "LockType (config (rt s)) = ''shm'' \<or> LockType (config (rt s)) = ''''"
  shows "getLockManager env s =
    (let lockPath = shmLockPath env; n = NumLocks (config (rt s)) in
     case OpenSHMLockManager env lockPath n of
       None \<Rightarrow> (Ok (SHMLockManager lockPath n), emit (OpenSHMLM lockPath n) s)
     | Some err \<Rightarrow>
         if Cause err = ENOENT
         then (case NewSHMLockManager env lockPath n of
                 None \<Rightarrow> Ok (SHMLockManager lockPath n)
               | Some err2 \<Rightarrow> Err (Wrapf err2 ''failed to get new shm lock manager'' []),
               emit (NewSHMLM lockPath n) (emit (OpenSHMLM lockPath n) s))
         else if Cause err = ERANGE \<and> doRenumber (rt s)
         then (case os_Remove env (filepath_Join ''/dev/shm'' lockPath) of
                 Some err2 \<Rightarrow>
                   (Err (Wrapf err2 ''error removing libpod locks file %s'' [lockPath]),
                    emit (RemoveFile (filepath_Join ''/dev/shm'' lockPath))
                      (emit (OpenSHMLM lockPath n) s))
               | None \<Rightarrow>
                   (case NewSHMLockManager env lockPath n of
                      None \<Rightarrow> Ok (SHMLockManager lockPath n)
                    | Some err3 \<Rightarrow> Err err3,
                    emit (NewSHMLM lockPath n)
                      (emit (RemoveFile (filepath_Join ''/dev/shm'' lockPath))
                         (emit (OpenSHMLM lockPath n) s))))
         else (Err err, emit (OpenSHMLM lockPath n) s))"
  using assms
  by (auto simp add: getLockManager_def Let_def os_IsNotExist_def split: option.splits)

lemma reboot_not_Ok:
  "fst (getLockManager env s) = Err e \<Longrightarrow> fst (makeRuntime_reboot env s) \<noteq> Ok ()"
  using reboot_lock_error[of env s e] by simp

text \<open>
  Claim C4.  Both backends first open the manager at their path.  When the open fails and
  the cause is that the medium does not exist, a new manager is created at the same path
  (with the configured number of locks for the shared-memory backend), and the result is
  that of the creation.  When the shared-memory open fails with cause \<open>ERANGE\<close> and a
  renumbering was requested, the segment is removed from \<open>/dev/shm\<close> and a new manager is
  created at the same path with the configured number of locks.  Every other failure of the
  open is returned as it is, nothing is created, and the bootstrap does not succeed.
\<close>

theorem lock_manager_open_or_create:
  fixes env :: Env and s :: Sys
  defines "c \<equiv> config (rt s)"
  defines "fp \<equiv> filepath_Join (TmpDir (config (rt s))) ''locks''"
  defines "sp \<equiv> shmLockPath env"
  defines "n \<equiv> NumLocks (config (rt s))"
  shows
  "(LockType c = ''file'' \<longrightarrow>
      (OpenFileLockManager env fp = None \<longrightarrow>
         getLockManager env s = (Ok (FileLockManager fp), emit (OpenFileLM fp) s)) \<and>
      (\<forall>err. OpenFileLockManager env fp = Some err \<and> Cause err = ENOENT \<longrightarrow>
         getLockManager env s =
           (case NewFileLockManager env fp of
              None \<Rightarrow> Ok (FileLockManager fp)
            | Some err2 \<Rightarrow> Err (Wrapf err2 ''failed to get new file lock manager'' []),
            emit (NewFileLM fp) (emit (OpenFileLM fp) s))) \<and>
      (\<forall>err. OpenFileLockManager env fp = Some err \<and> Cause err \<noteq> ENOENT \<longrightarrow>
         getLockManager env s = (Err err, emit (OpenFileLM fp) s) \<and>
         fst (makeRuntime_reboot env s) \<noteq> Ok ())) \<and>
   (LockType c = ''shm'' \<or> LockType c = '''' \<longrightarrow>
      (OpenSHMLockManager env sp n = None \<longrightarrow>
         getLockManager env s = (Ok (SHMLockManager sp n), emit (OpenSHMLM sp n) s)) \<and>
      (\<forall>err. OpenSHMLockManager env sp n = Some err \<and> Cause err = ENOENT \<longrightarrow>
         getLockManager env s =
           (case NewSHMLockManager env sp n of
              None \<Rightarrow> Ok (SHMLockManager sp n)
            | Some err2 \<Rightarrow> Err (Wrapf err2 ''failed to get new shm lock manager'' []),
            emit (NewSHMLM sp n) (emit (OpenSHMLM sp n) s))) \<and>
      (\<forall>err. OpenSHMLockManager env sp n = Some err \<and> Cause err = ERANGE \<and>
             doRenumber (rt s) \<longrightarrow>
         getLockManager env s =
           (case os_Remove env (filepath_Join ''/dev/shm'' sp) of
              Some err2 \<Rightarrow>
                (Err (Wrapf err2 ''error removing libpod locks file %s'' [sp]),
                 emit (RemoveFile (filepath_Join ''/dev/shm'' sp)) (emit (OpenSHMLM sp n) s))
            | None \<Rightarrow>
                (case NewSHMLockManager env sp n of
                   None \<Rightarrow> Ok (SHMLockManager sp n)
                 | Some err3 \<Rightarrow> Err err3,
                 emit (NewSHMLM sp n)
                   (emit (RemoveFile (filepath_Join ''/dev/shm'' sp))
                      (emit (OpenSHMLM sp n) s))))) \<and>
      (\<forall>err. OpenSHMLockManager env sp n = Some err \<and> Cause err \<noteq> ENOENT \<and>
             \<not> (Cause err = ERANGE \<and> doRenumber (rt s)) \<longrightarrow>
         getLockManager env s = (Err err, emit (OpenSHMLM sp n) s) \<and>
         fst (makeRuntime_reboot env s) \<noteq> Ok ()))"
proof -
  have f: ?thesis if h: "LockType c = ''file''"
  proof -
    from h have nshm: "\<not> (LockType c = ''shm'' \<or> LockType c = '''')" by auto
    note g = getLockManager_file[OF h[unfolded c_def], of env, folded fp_def]
    have 1: "OpenFileLockManager env fp = None \<longrightarrow>
         getLockManager env s = (Ok (FileLockManager fp), emit (OpenFileLM fp) s)"
      by (simp add: g Let_def)
    have 2: "\<forall>err. OpenFileLockManager env fp = Some err \<and> Cause err = ENOENT \<longrightarrow>
         getLockManager env s =
           (case NewFileLockManager env fp of
              None \<Rightarrow> Ok (FileLockManager fp)
            | Some err2 \<Rightarrow> Err (Wrapf err2 ''failed to get new file lock manager'' []),
            emit (NewFileLM fp) (emit (OpenFileLM fp) s))"
      by (simp add: g Let_def)
    have 3: "\<forall>err. OpenFileLockManager env fp = Some err \<and> Cause err \<noteq> ENOENT \<longrightarrow>
         getLockManager env s = (Err err, emit (OpenFileLM fp) s) \<and>
         fst (makeRuntime_reboot env s) \<noteq> Ok ()"
    proof (intro allI impI)
      fix err assume a: "OpenFileLockManager env fp = Some err \<and> Cause err \<noteq> ENOENT"
      then have "getLockManager env s = (Err err, emit (OpenFileLM fp) s)"
        by (simp add: g Let_def)
      then show "getLockManager env s = (Err err, emit (OpenFileLM fp) s) \<and>
         fst (makeRuntime_reboot env s) \<noteq> Ok ()"
        using reboot_not_Ok[of env s err] by simp
    qed
    from 1 2 3 nshm show ?thesis by blast
  qed
  have m: ?thesis if h: "LockType c = ''shm'' \<or> LockType c = ''''"
  proof -
    from h have nfile: "LockType c \<noteq> ''file''" by auto
    note g = getLockManager_shm[OF h[unfolded c_def], of env, folded sp_def n_def]
    have 1: "OpenSHMLockManager env sp n = None \<longrightarrow>
         getLockManager env s = (Ok (SHMLockManager sp n), emit (OpenSHMLM sp n) s)"
      by (simp add: g Let_def)
    have 2: "\<forall>err. OpenSHMLockManager env sp n = Some err \<and> Cause err = ENOENT \<longrightarrow>
         getLockManager env s =
           (case NewSHMLockManager env sp n of
              None \<Rightarrow> Ok (SHMLockManager sp n)
            | Some err2 \<Rightarrow> Err (Wrapf err2 ''failed to get new shm lock manager'' []),
            emit (NewSHMLM sp n) (emit (OpenSHMLM sp n) s))"
      by (simp add: g Let_def)
    have 3: "\<forall>err. OpenSHMLockManager env sp n = Some err \<and> Cause err = ERANGE \<and>
             doRenumber (rt s) \<longrightarrow>
         getLockManager env s =
           (case os_Remove env (filepath_Join ''/dev/shm'' sp) of
              Some err2 \<Rightarrow>
                (Err (Wrapf err2 ''error removing libpod locks file %s'' [sp]),
                 emit (RemoveFile (filepath_Join ''/dev/shm'' sp)) (emit (OpenSHMLM sp n) s))
            | None \<Rightarrow>
                (case NewSHMLockManager env sp n of
                   None \<Rightarrow> Ok (SHMLockManager sp n)
                 | Some err3 \<Rightarrow> Err err3,
                 emit (NewSHMLM sp n)
                   (emit (RemoveFile (filepath_Join ''/dev/shm'' sp))
                      (emit (OpenSHMLM sp n) s))))"
      by (simp add: g Let_def)
    have 4: "\<forall>err. OpenSHMLockManager env sp n = Some err \<and> Cause err \<noteq> ENOENT \<and>
             \<not> (Cause err = ERANGE \<and> doRenumber (rt s)) \<longrightarrow>
         getLockManager env s = (Err err, emit (OpenSHMLM sp n) s) \<and>
         fst (makeRuntime_reboot env s) \<noteq> Ok ()"
    proof (intro allI impI)
      fix err assume a: "OpenSHMLockManager env sp n = Some err \<and> Cause err \<noteq> ENOENT \<and>
             \<not> (Cause err = ERANGE \<and> doRenumber (rt s))"
      then have "getLockManager env s = (Err err, emit (OpenSHMLM sp n) s)"
        by (auto simp add: g Let_def)
      then show "getLockManager env s = (Err err, emit (OpenSHMLM sp n) s) \<and>
         fst (makeRuntime_reboot env s) \<noteq> Ok ()"
        using reboot_not_Ok[of env s err] by simp
    qed
    from 1 2 3 4 nfile show ?thesis by blast
  qed
  from f m show ?thesis by blast
qed

theorem lock_manager_open_or_create_witness:
  "fst (getLockManager host_env_resized renumber_start) =
     Ok (SHMLockManager ''/libpod_lock'' 2048) \<and>
   trace (snd (getLockManager host_env_resized renumber_start)) =
     [OpenSHMLM ''/libpod_lock'' 2048, RemoveFile ''/dev/shm/libpod_lock'',
      NewSHMLM ''/libpod_lock'' 2048] \<and>
   fst (getLockManager host_env_resized host_start) =
     Err (Wrapf ERANGE ''failed to open %d locks in %s'' []) \<and>
   fst (makeRuntime_reboot host_env_resized host_start) \<noteq> Ok () \<and>
   fst (getLockManager host_env_no_lock_dir file_start) =
     Ok (FileLockManager ''/run/libpod/locks'') \<and>
   trace (snd (getLockManager host_env_no_lock_dir file_start)) =
     [OpenFileLM ''/run/libpod/locks'', NewFileLM ''/run/libpod/locks'']"
proof -
  let ?e = "Wrapf ERANGE ''failed to open %d locks in %s'' []"
  have sp: "shmLockPath host_env_resized = ''/libpod_lock''" by code_simp
  have rm: "filepath_Join ''/dev/shm'' ''/libpod_lock'' = ''/dev/shm/libpod_lock''" by code_simp
  have ce: "Cause ?e = ERANGE" by simp
  \<comment> \<open>the segment has another size and a renumbering was requested\<close>
  have l1: "LockType (config (rt renumber_start)) = ''shm''" by code_simp
  have n1: "NumLocks (config (rt renumber_start)) = 2048" by code_simp
  have o1: "OpenSHMLockManager host_env_resized ''/libpod_lock'' 2048 = Some ?e" by code_simp
  have d1: "doRenumber (rt renumber_start)" by code_simp
  have r1: "os_Remove host_env_resized ''/dev/shm/libpod_lock'' = None" by code_simp
  have c1: "NewSHMLockManager host_env_resized ''/libpod_lock'' 2048 = None" by code_simp
  have t1: "trace renumber_start = []" by code_simp
  from lock_manager_open_or_create[of renumber_start host_env_resized] l1
  have "\<forall>err. OpenSHMLockManager host_env_resized (shmLockPath host_env_resized)
               (NumLocks (config (rt renumber_start))) = Some err \<and>
             Cause err = ERANGE \<and> doRenumber (rt renumber_start) \<longrightarrow>
         getLockManager host_env_resized renumber_start =
           (case os_Remove host_env_resized
                   (filepath_Join ''/dev/shm'' (shmLockPath host_env_resized)) of
              Some err2 \<Rightarrow>
                (Err (Wrapf err2 ''error removing libpod locks file %s''
                        [shmLockPath host_env_resized]),
                 emit (RemoveFile (filepath_Join ''/dev/shm'' (shmLockPath host_env_resized)))
                   (emit (OpenSHMLM (shmLockPath host_env_resized)
                            (NumLocks (config (rt renumber_start)))) renumber_start))
            | None \<Rightarrow>
                (case NewSHMLockManager host_env_resized (shmLockPath host_env_resized)
                        (NumLocks (config (rt renumber_start))) of
                   None \<Rightarrow> Ok (SHMLockManager (shmLockPath host_env_resized)
                                  (NumLocks (config (rt renumber_start))))
                 | Some err3 \<Rightarrow> Err err3,
                 emit (NewSHMLM (shmLockPath host_env_resized)
                         (NumLocks (config (rt renumber_start))))
                   (emit (RemoveFile (filepath_Join ''/dev/shm'' (shmLockPath host_env_resized)))
                      (emit (OpenSHMLM (shmLockPath host_env_resized)
                               (NumLocks (config (rt renumber_start)))) renumber_start))))"
    by blast
  with o1 ce d1 have g1: "getLockManager host_env_resized renumber_start =
      (Ok (SHMLockManager ''/libpod_lock'' 2048),
       emit (NewSHMLM ''/libpod_lock'' 2048)
         (emit (RemoveFile ''/dev/shm/libpod_lock'')
            (emit (OpenSHMLM ''/libpod_lock'' 2048) renumber_start)))"
    by (simp add: sp n1 rm r1 c1)
  \<comment> \<open>the same without the request\<close>
  have l2: "LockType (config (rt host_start)) = ''shm''" by code_simp
  have n2: "NumLocks (config (rt host_start)) = 2048" by code_simp
  have d2: "\<not> doRenumber (rt host_start)" by code_simp
  from lock_manager_open_or_create[of host_start host_env_resized] l2
  have "\<forall>err. OpenSHMLockManager host_env_resized (shmLockPath host_env_resized)
               (NumLocks (config (rt host_start))) = Some err \<and> Cause err \<noteq> ENOENT \<and>
             \<not> (Cause err = ERANGE \<and> doRenumber (rt host_start)) \<longrightarrow>
         getLockManager host_env_resized host_start =
           (Err err, emit (OpenSHMLM (shmLockPath host_env_resized)
                             (NumLocks (config (rt host_start)))) host_start) \<and>
         fst (makeRuntime_reboot host_env_resized host_start) \<noteq> Ok ()"
    by blast
  with o1 ce d2 have g2: "getLockManager host_env_resized host_start =
           (Err ?e, emit (OpenSHMLM ''/libpod_lock'' 2048) host_start) \<and>
         fst (makeRuntime_reboot host_env_resized host_start) \<noteq> Ok ()"
    by (simp add: sp n2)
  \<comment> \<open>the file locks before the directory exists\<close>
  have l3: "LockType (config (rt file_start)) = ''file''" by code_simp
  have p3: "filepath_Join (TmpDir (config (rt file_start))) ''locks'' = ''/run/libpod/locks''"
    by code_simp
  have o3: "OpenFileLockManager host_env_no_lock_dir ''/run/libpod/locks'' =
              Some (Wrapf ENOENT ''open %s'' [''/run/libpod/locks''])" by code_simp
  have c3: "NewFileLockManager host_env_no_lock_dir ''/run/libpod/locks'' = None" by code_simp
  have t3: "trace file_start = []" by code_simp
  from lock_manager_open_or_create[of file_start host_env_no_lock_dir] l3
  have "\<forall>err. OpenFileLockManager host_env_no_lock_dir
               (filepath_Join (TmpDir (config (rt file_start))) ''locks'') = Some err \<and>
             Cause err = ENOENT \<longrightarrow>
         getLockManager host_env_no_lock_dir file_start =
           (case NewFileLockManager host_env_no_lock_dir
                   (filepath_Join (TmpDir (config (rt file_start))) ''locks'') of
              None \<Rightarrow> Ok (FileLockManager
                             (filepath_Join (TmpDir (config (rt file_start))) ''locks''))
            | Some err2 \<Rightarrow> Err (Wrapf err2 ''failed to get new file lock manager'' []),
            emit (NewFileLM (filepath_Join (TmpDir (config (rt file_start))) ''locks''))
              (emit (OpenFileLM (filepath_Join (TmpDir (config (rt file_start))) ''locks''))
                 file_start))"
    by blast
  with o3 have g3: "getLockManager host_env_no_lock_dir file_start =
      (Ok (FileLockManager ''/run/libpod/locks''),
       emit (NewFileLM ''/run/libpod/locks'') (emit (OpenFileLM ''/run/libpod/locks'') file_start))"
    by (simp add: p3 c3)
  from g1 g2 g3 show ?thesis by (simp add: t1 t3)
qed

section \<open>The default OCI runtime\<close>

lemma no_default_runtime:
  assumes "RuntimePath (config (rt s)) = None" and "OCIRuntime (config (rt s)) = ''''"
    and "defaultOCIRuntime (rt s) = None"
  shows "\<exists>e. fst (setup_ociRuntimes env s) = Err e \<and> Cause e = ErrInvalidArg \<and>
           defaultOCIRuntime (rt (snd (setup_ociRuntimes env s))) = None"
proof -
  let ?s0 = "s\<lparr>rt := (rt s)\<lparr>ociRuntimes := []\<rparr>\<rparr>"
  have a: "oci_legacy env s = (Ok (), ?s0)" using assms(1) by (simp add: oci_legacy_def)
  have inv: "defaultOCIRuntime (rt (fold (oci_init_one env) xs t)) = defaultOCIRuntime (rt t) \<and>
             config (rt (fold (oci_init_one env) xs t)) = config (rt t)" for xs t
    by (induction xs arbitrary: t) (simp_all add: oci_init_one_def Let_def split: sum.splits)
  let ?s1 = "fold (oci_init_one env) (OCIRuntimes (config (rt ?s0))) ?s0"
  have d1: "defaultOCIRuntime (rt ?s1) = None" and c1: "OCIRuntime (config (rt ?s1)) = ''''"
    using inv[of "OCIRuntimes (config (rt ?s0))" ?s0] assms by simp_all
  have b: "oci_default env ?s1 = (Ok (), ?s1)" using c1 by (simp add: oci_default_def)
  have c: "\<exists>e. oci_check ?s1 = (Err e, ?s1) \<and> Cause e = ErrInvalidArg"
    using d1 by (simp add: oci_check_def)
  from c obtain e where e: "oci_check ?s1 = (Err e, ?s1)" "Cause e = ErrInvalidArg" by blast
  have "setup_ociRuntimes env s = (Err e, ?s1)"
    using a b e(1) by (simp add: setup_ociRuntimes_def oci_remaining_def andThen_def)
  with e(2) d1 show ?thesis by simp
qed

text \<open>
  Claim C3.  The configuration of \<open>legacy_start\<close> has both the deprecated \<open>runtime_path\<close>
  and a named \<open>runtime\<close>; every runtime initialises.  The registry holds the runtime of
  \<open>runtime_path\<close> and the one of the table, and the default that the code designates is
  the named one, not the one of \<open>runtime_path\<close>.
\<close>

theorem named_runtime_overrides_runtime_path:
  "fst (setup_ociRuntimes host_env legacy_start) = Ok () \<and>
   map fst (ociRuntimes (rt (snd (setup_ociRuntimes host_env legacy_start)))) =
     [''runc'', ''crun''] \<and>
   map_of (ociRuntimes (rt (snd (setup_ociRuntimes host_env legacy_start)))) ''runc'' =
     Some \<lparr>oci_name = ''runc'', oci_paths = [''/usr/libexec/legacy/runc''],
            oci_supportsJSON = True, oci_supportsNoCgroups = False\<rparr> \<and>
   defaultOCIRuntime (rt (snd (setup_ociRuntimes host_env legacy_start))) =
     Some \<lparr>oci_name = ''crun'', oci_paths = [''/usr/bin/crun''],
            oci_supportsJSON = True, oci_supportsNoCgroups = True\<rparr> \<and>
   fst (makeRuntime host_env legacy_start) = Ok () \<and>
   map_option oci_name (defaultOCIRuntime (rt (snd (makeRuntime host_env legacy_start)))) =
     Some ''crun''"
  by code_simp

end
